theory Spec2Isabelle
  imports Complex_Main "HOL-Library.AList" "HOL-Library.Log_Nat"
begin

chapter \<open>Motion control of the Ellee robot\<close>

text \<open>
  A shallow embedding of the motion-control code of the repository: the wheel driver of
  \<^verbatim>\<open>motor.py\<close> (class \<^verbatim>\<open>SOMEBODY4MotorController\<close>), the safety supervisor of
  \<^verbatim>\<open>enhanced_motor_control.py\<close> (class \<^verbatim>\<open>ElleeMotorController\<close>), the command interpreter of
  \<^verbatim>\<open>movement_comands.py\<close> (class \<^verbatim>\<open>MovementCommandProcessor\<close>) and the movement part of the state
  machine of \<^verbatim>\<open>enhanced_brain_module_with_movements.py\<close>.

  Every method becomes a function that takes the object's state and returns the new state.
  Console output (\<^verbatim>\<open>print\<close>) and the levels written to the GPIO pins are not part of the
  state: no property below speaks about them.
\<close>

section \<open>Wheel driver (\<^verbatim>\<open>motor.py\<close>)\<close>

subsection \<open>The motor table\<close>

text \<open>
  \<^verbatim>\<open>self.motors\<close> is a dictionary from the wheel's name to a dictionary with the two pin
  numbers and the two duties. Python dictionaries keep insertion order and \<^verbatim>\<open>stop_all\<close>
  iterates over the keys, so the table is an association list. The duties are Python
  numbers: the voice path stores \<^verbatim>\<open>int\<close>s, \<^verbatim>\<open>set_omni_movement\<close> may store \<^verbatim>\<open>float\<close>s. The
  driver is therefore polymorphic in the number type; it only compares, negates and
  takes absolute values, which are exact on integers and on finite floats.
\<close>

record 'a motor =
  RPWM :: nat
  LPWM :: nat
  speed_f :: 'a
  speed_r :: 'a

type_synonym 'a motors = "(string \<times> 'a motor) list"

definition initial_motors :: "'a::zero motors" where
  "initial_motors =
     [(''FL'', \<lparr>RPWM = 11, LPWM = 13, speed_f = 0, speed_r = 0\<rparr>),
      (''FR'', \<lparr>RPWM = 15, LPWM = 16, speed_f = 0, speed_r = 0\<rparr>),
      (''BR'', \<lparr>RPWM = 18, LPWM = 22, speed_f = 0, speed_r = 0\<rparr>),
      (''BL'', \<lparr>RPWM = 29, LPWM = 31, speed_f = 0, speed_r = 0\<rparr>)]"

subsection \<open>Setting one wheel\<close>

text \<open>
  \<^verbatim>\<open>set_motor_speed(motor_name, speed)\<close>: an unknown name returns at once; otherwise the
  speed is clamped to \<open>[-100, 100]\<close> and written to one of the two duties, the other one
  being cleared.
\<close>

definition set_motor_speed :: "string \<Rightarrow> 'a::linordered_idom \<Rightarrow> 'a motors \<Rightarrow> 'a motors" where
  "set_motor_speed motor_name speed ms =
     (case map_of ms motor_name of
        None \<Rightarrow> ms
      | Some motor \<Rightarrow>
          (let speed' = max (- 100) (min 100 speed) in
           if speed' > 0 then
             AList.update motor_name (motor\<lparr>speed_f := \<bar>speed'\<bar>, speed_r := 0\<rparr>) ms
           else if speed' < 0 then
             AList.update motor_name (motor\<lparr>speed_f := 0, speed_r := \<bar>speed'\<bar>\<rparr>) ms
           else
             AList.update motor_name (motor\<lparr>speed_f := 0, speed_r := 0\<rparr>) ms))"

text \<open>\<^verbatim>\<open>stop_all\<close>: \<^verbatim>\<open>for motor_name in self.motors: self.set_motor_speed(motor_name, 0)\<close>.\<close>

definition stop_all :: "'a::linordered_idom motors \<Rightarrow> 'a motors" where
  "stop_all ms = fold (\<lambda>motor_name. set_motor_speed motor_name 0) (map fst ms) ms"

subsection \<open>Gaits\<close>

text \<open>Each gait is four calls of \<^verbatim>\<open>set_motor_speed\<close>, in the order of the source.\<close>

definition set_four :: "string \<times> 'a::linordered_idom \<Rightarrow> string \<times> 'a \<Rightarrow> string \<times> 'a \<Rightarrow> string \<times> 'a
    \<Rightarrow> 'a motors \<Rightarrow> 'a motors" where
  "set_four a b c d ms =
     set_motor_speed (fst d) (snd d)
       (set_motor_speed (fst c) (snd c)
         (set_motor_speed (fst b) (snd b)
           (set_motor_speed (fst a) (snd a) ms)))"

definition move_forward :: "'a::linordered_idom \<Rightarrow> 'a motors \<Rightarrow> 'a motors" where
  "move_forward speed = set_four (''FL'', speed) (''FR'', speed) (''BL'', speed) (''BR'', speed)"

definition move_backward :: "'a::linordered_idom \<Rightarrow> 'a motors \<Rightarrow> 'a motors" where
  "move_backward speed = set_four (''FL'', - speed) (''FR'', - speed) (''BL'', - speed) (''BR'', - speed)"

definition turn_left :: "'a::linordered_idom \<Rightarrow> 'a motors \<Rightarrow> 'a motors" where
  "turn_left speed = set_four (''FL'', - speed) (''FR'', speed) (''BL'', - speed) (''BR'', speed)"

definition turn_right :: "'a::linordered_idom \<Rightarrow> 'a motors \<Rightarrow> 'a motors" where
  "turn_right speed = set_four (''FL'', speed) (''FR'', - speed) (''BL'', speed) (''BR'', - speed)"

definition strafe_left :: "'a::linordered_idom \<Rightarrow> 'a motors \<Rightarrow> 'a motors" where
  "strafe_left speed = set_four (''FL'', - speed) (''FR'', speed) (''BL'', speed) (''BR'', - speed)"

definition strafe_right :: "'a::linordered_idom \<Rightarrow> 'a motors \<Rightarrow> 'a motors" where
  "strafe_right speed = set_four (''FL'', speed) (''FR'', - speed) (''BL'', - speed) (''BR'', speed)"

definition diagonal_forward_left :: "'a::linordered_idom \<Rightarrow> 'a motors \<Rightarrow> 'a motors" where
  "diagonal_forward_left speed = set_four (''FL'', 0) (''FR'', speed) (''BL'', speed) (''BR'', 0)"

definition diagonal_forward_right :: "'a::linordered_idom \<Rightarrow> 'a motors \<Rightarrow> 'a motors" where
  "diagonal_forward_right speed = set_four (''FL'', speed) (''FR'', 0) (''BL'', 0) (''BR'', speed)"

definition spin_clockwise :: "'a::linordered_idom \<Rightarrow> 'a motors \<Rightarrow> 'a motors" where
  "spin_clockwise speed = set_four (''FL'', speed) (''FR'', - speed) (''BL'', speed) (''BR'', - speed)"

subsection \<open>Python floats\<close>

text \<open>
  A Python \<^verbatim>\<open>float\<close> is an IEEE 754 double. A finite double is the rational number it
  denotes (the sign of zero plays no part below: the code only compares, negates and
  takes absolute values). An operation on doubles returns the exact result rounded to
  the nearest double, ties to the even significand.

  \<open>round_half_even\<close> rounds a rational to the nearest integer, ties to even.
  \<open>binary_exponent x\<close> is the integer \<open>e\<close> with \<open>2 powi e \<le> \<bar>x\<bar>\<close> and
  \<open>\<bar>x\<bar> < 2 powi (e + 1)\<close>, found from the bit lengths of numerator and denominator.
  \<open>to_double\<close> rounds to 53 significant bits, or to multiples of \<open>2 powi (- 1074)\<close> in the
  subnormal range. Overflow to infinity is not part of \<open>to_double\<close>: it is applied below
  only to magnitudes of at most 100.
\<close>

definition round_half_even :: "rat \<Rightarrow> int" where
  "round_half_even t =
     (let f = \<lfloor>t\<rfloor>; d = t - of_int f
      in if d < 1 / 2 then f else if d > 1 / 2 then f + 1 else if even f then f else f + 1)"

definition binary_exponent :: "rat \<Rightarrow> int" where
  "binary_exponent x =
     (case quotient_of \<bar>x\<bar> of
        (p, q) \<Rightarrow> (let e0 = bitlen p - bitlen q in if 2 powi e0 \<le> \<bar>x\<bar> then e0 else e0 - 1))"

definition to_double :: "rat \<Rightarrow> rat" where
  "to_double x =
     (if x = 0 then 0
      else (let e = max (binary_exponent x) (- 1022);
                ulp = 2 powi (e - 52)
            in of_int (round_half_even (x / ulp)) * ulp))"

subsection \<open>Velocity form\<close>

text \<open>
  \<^verbatim>\<open>set_omni_movement(vx, vy, omega)\<close> first computes four wheel values and normalises
  them; \<open>omni_wheels\<close> is that first half, the values of the local variables
  \<^verbatim>\<open>fl, fr, bl, br\<close> when the four \<^verbatim>\<open>set_motor_speed\<close> calls are reached. The arguments are
  Python integers, as everywhere on the voice path, so the four sums and their maximum
  are exact integers. In \<^verbatim>\<open>(fl / max_val) * 100\<close> the true division of two integers gives
  the correctly rounded double of the quotient, and the product of that double with 100
  is rounded again. The division is only evaluated when \<^verbatim>\<open>max_val > 100\<close>, so never by
  zero. The results go into a table of rational duties, which holds integers and
  finite doubles alike.
\<close>

definition omni_wheels :: "int \<Rightarrow> int \<Rightarrow> int \<Rightarrow> rat \<times> rat \<times> rat \<times> rat" where
  "omni_wheels vx vy omega =
     (let fl = vx - vy - omega;
          fr = vx + vy + omega;
          bl = vx + vy - omega;
          br = vx - vy + omega;
          max_val = max (max (max \<bar>fl\<bar> \<bar>fr\<bar>) \<bar>bl\<bar>) \<bar>br\<bar>
      in if max_val > 100
         then (to_double (to_double (of_int fl / of_int max_val) * 100),
               to_double (to_double (of_int fr / of_int max_val) * 100),
               to_double (to_double (of_int bl / of_int max_val) * 100),
               to_double (to_double (of_int br / of_int max_val) * 100))
         else (of_int fl, of_int fr, of_int bl, of_int br))"

definition set_omni_movement :: "int \<Rightarrow> int \<Rightarrow> int \<Rightarrow> rat motors \<Rightarrow> rat motors" where
  "set_omni_movement vx vy omega ms =
     (case omni_wheels vx vy omega of
        (fl, fr, bl, br) \<Rightarrow> set_four (''FL'', fl) (''FR'', fr) (''BL'', bl) (''BR'', br) ms)"

text \<open>The signed speed a wheel was last given, read back from its two duties.\<close>

definition wheel :: "'a::linordered_idom motors \<Rightarrow> string \<Rightarrow> 'a option" where
  "wheel ms motor_name = map_option (\<lambda>m. speed_f m - speed_r m) (map_of ms motor_name)"

definition duties :: "'a motors \<Rightarrow> string \<Rightarrow> ('a \<times> 'a) option" where
  "duties ms motor_name = map_option (\<lambda>m. (speed_f m, speed_r m)) (map_of ms motor_name)"

text \<open>A wheel with both duties cleared.\<close>

definition zero_duties :: "'a::zero motor \<Rightarrow> 'a motor" where
  "zero_duties m = m\<lparr>speed_f := 0, speed_r := 0\<rparr>"

text \<open>The invariant of one wheel: both duties in \<open>[0, 100]\<close> and not both nonzero.\<close>

definition motor_ok :: "'a::linordered_idom motor \<Rightarrow> bool" where
  "motor_ok m \<longleftrightarrow>
     0 \<le> speed_f m \<and> speed_f m \<le> 100 \<and> 0 \<le> speed_r m \<and> speed_r m \<le> 100 \<and>
     (speed_f m = 0 \<or> speed_r m = 0)"

definition motors_ok :: "'a::linordered_idom motors \<Rightarrow> bool" where
  "motors_ok ms = list_all (\<lambda>(motor_name, m). motor_ok m) ms"

text \<open>A sequence of \<^verbatim>\<open>set_motor_speed\<close> calls, each with its wheel name and its speed.\<close>

definition set_motor_speeds :: "(string \<times> 'a::linordered_idom) list \<Rightarrow> 'a motors \<Rightarrow> 'a motors" where
  "set_motor_speeds calls ms = fold (\<lambda>(motor_name, speed). set_motor_speed motor_name speed) calls ms"


section \<open>Safety supervisor (\<^verbatim>\<open>enhanced_motor_control.py\<close>)\<close>

subsection \<open>State\<close>

text \<open>
  Readings of \<^verbatim>\<open>time.time()\<close> are seconds, as rationals; \<^verbatim>\<open>datetime.now()\<close> is read from the
  same clock. Each method that reads the clock takes the reading \<open>now\<close> as an argument.
\<close>

type_synonym clock = rat

record history_entry =
  entry_action :: string
  entry_duration :: clock
  entry_speed :: int
  entry_timestamp :: clock

text \<open>
  A daemon thread started with \<^verbatim>\<open>threading.Thread(target=..., daemon=True).start()\<close> first
  sleeps and then runs the rest of its body. A started thread is kept in the state as the
  time its sleep ends and what it runs then; it is live from its start until that body has
  run. \<open>Enhanced_dance k\<close> is the dance thread about to look at its \<open>k\<close>-th move.
\<close>

datatype target = Movement_timeout_check | Clear_emergency_stop | Timed_movement | Enhanced_dance nat

type_synonym thread = "clock \<times> target"

text \<open>
  \<^verbatim>\<open>safety_lock\<close> is a \<^verbatim>\<open>threading.Lock()\<close>, which is not reentrant: the field is \<open>True\<close>
  while the lock is held. The subclass extends the driver, so the motor table is a field
  here; the voice path stores integer duties.
\<close>

record controller =
  motors :: "int motors"
  default_speed :: int
  max_safe_speed :: int
  current_speed :: int
  is_moving :: bool
  current_action :: string
  movement_start_time :: "clock option"
  emergency_stop_active :: bool
  movement_timeout :: int
  safety_lock :: bool
  movement_history :: "history_entry list"
  total_movements :: nat
  threads :: "thread list"

definition initial_controller :: controller where
  "initial_controller =
     \<lparr>motors = initial_motors, default_speed = 50, max_safe_speed = 70, current_speed = 50,
      is_moving = False, current_action = ''stopped'', movement_start_time = None,
      emergency_stop_active = False, movement_timeout = 10, safety_lock = False,
      movement_history = [], total_movements = 0, threads = []\<rparr>"

text \<open>
  A call either returns a value and the new state, or never returns because the calling
  thread waits for \<^verbatim>\<open>safety_lock\<close>: \<open>Blocked\<close> carries the state the other threads see
  from then on. In this sequential model nobody else holds the lock when a method is
  entered, so a wait on a lock that is held never ends.
\<close>

datatype ('a, 's) outcome = Returned 'a 's | Blocked 's

fun state_of :: "('a, 's) outcome \<Rightarrow> 's" where
  "state_of (Returned x s) = s"
| "state_of (Blocked s) = s"

fun result_of :: "('a, 's) outcome \<Rightarrow> 'a option" where
  "result_of (Returned x s) = Some x"
| "result_of (Blocked s) = None"

fun returns :: "('a, 's) outcome \<Rightarrow> bool" where
  "returns (Returned x s) = True"
| "returns (Blocked s) = False"

subsection \<open>Python idioms\<close>

text \<open>\<^verbatim>\<open>x or y\<close> for an optional integer \<open>x\<close>: \<^verbatim>\<open>None\<close> and \<open>0\<close> are both falsy.\<close>

definition py_or :: "int option \<Rightarrow> int \<Rightarrow> int" where
  "py_or x y = (case x of None \<Rightarrow> y | Some v \<Rightarrow> if v = 0 then y else v)"

text \<open>\<^verbatim>\<open>if x:\<close> for an optional integer: the value when it is truthy.\<close>

definition truthy :: "int option \<Rightarrow> int option" where
  "truthy x = (case x of None \<Rightarrow> None | Some v \<Rightarrow> if v = 0 then None else Some v)"

text \<open>\<^verbatim>\<open>str\<close> of an integer, for the formatted messages.\<close>

fun str_nat :: "nat \<Rightarrow> string" where
  "str_nat n = (if n < 10 then [char_of (48 + n)] else str_nat (n div 10) @ [char_of (48 + n mod 10)])"

declare str_nat.simps [simp del]

definition str_int :: "int \<Rightarrow> string" where
  "str_int i = (if i < 0 then CHR ''-'' # str_nat (nat (- i)) else str_nat (nat i))"

subsection \<open>Admission, end of movement, stops\<close>

definition set_speed_limit :: "int \<Rightarrow> controller \<Rightarrow> int \<times> controller" where
  "set_speed_limit speed c =
     (let speed' = max 0 (min (max_safe_speed c) speed)
      in (speed', c\<lparr>current_speed := speed'\<rparr>))"

text \<open>\<^verbatim>\<open>_start_movement(action_name)\<close>; the whole body runs under \<^verbatim>\<open>safety_lock\<close>.\<close>

definition start_movement :: "clock \<Rightarrow> string \<Rightarrow> controller \<Rightarrow> (bool, controller) outcome" where
  "start_movement now action_name c =
     (if safety_lock c then Blocked c
      else if emergency_stop_active c then Returned False c
      else Returned True
        (c\<lparr>is_moving := True,
           current_action := action_name,
           movement_start_time := Some now,
           total_movements := total_movements c + 1,
           threads := threads c @ [(now + of_int (movement_timeout c), Movement_timeout_check)]\<rparr>))"

text \<open>
  \<^verbatim>\<open>_end_movement()\<close>, again under \<^verbatim>\<open>safety_lock\<close>. The start time is tested for
  truthiness, so a start time of exactly \<open>0\<close> counts as absent.
\<close>

definition record_history :: "clock \<Rightarrow> controller \<Rightarrow> controller" where
  "record_history now c =
     (let duration = (case movement_start_time c of
                        None \<Rightarrow> 0
                      | Some t \<Rightarrow> if t = 0 then 0 else now - t);
          h = movement_history c @
                [\<lparr>entry_action = current_action c, entry_duration = duration,
                  entry_speed = current_speed c, entry_timestamp = now\<rparr>]
      in c\<lparr>movement_history := (if length h > 50 then drop (length h - 50) h else h)\<rparr>)"

definition end_movement :: "clock \<Rightarrow> controller \<Rightarrow> (unit, controller) outcome" where
  "end_movement now c =
     (if safety_lock c then Blocked c
      else Returned ()
        ((if is_moving c then record_history now c else c)
           \<lparr>is_moving := False, current_action := ''stopped'', movement_start_time := None\<rparr>))"

text \<open>\<^verbatim>\<open>stop_all_safe()\<close>: \<^verbatim>\<open>super().stop_all()\<close>, then \<^verbatim>\<open>self._end_movement()\<close>.\<close>

definition stop_all_safe :: "clock \<Rightarrow> controller \<Rightarrow> (unit, controller) outcome" where
  "stop_all_safe now c = end_movement now (c\<lparr>motors := stop_all (motors c)\<rparr>)"

text \<open>
  \<^verbatim>\<open>emergency_stop()\<close> takes \<^verbatim>\<open>safety_lock\<close> and, still holding it, sets the flag, stops the
  wheels and calls \<^verbatim>\<open>_end_movement()\<close>, which takes \<^verbatim>\<open>safety_lock\<close> itself. What follows the
  call (the thread that clears the flag, the message, the release of the lock) is
  written as the source has it.
\<close>

definition emergency_stop :: "clock \<Rightarrow> controller \<Rightarrow> (string, controller) outcome" where
  "emergency_stop now c =
     (if safety_lock c then Blocked c
      else
        (let c1 = c\<lparr>safety_lock := True\<rparr>;
             c2 = c1\<lparr>emergency_stop_active := True\<rparr>;
             c3 = c2\<lparr>motors := stop_all (motors c2)\<rparr>
         in case end_movement now c3 of
              Blocked c4 \<Rightarrow> Blocked c4
            | Returned u c4 \<Rightarrow>
                Returned ''Emergency stop activated! All movement halted.''
                  (c4\<lparr>threads := threads c4 @ [(now + 2, Clear_emergency_stop)],
                      safety_lock := False\<rparr>)))"


subsection \<open>Bodies of the daemon threads\<close>

text \<open>What each thread runs once its sleep is over, at clock reading \<open>now\<close>.\<close>

definition clear_emergency_stop :: "controller \<Rightarrow> (unit, controller) outcome" where
  "clear_emergency_stop c =
     (if safety_lock c then Blocked c else Returned () (c\<lparr>emergency_stop_active := False\<rparr>))"

definition movement_timeout_check :: "clock \<Rightarrow> controller \<Rightarrow> (unit, controller) outcome" where
  "movement_timeout_check now c = (if is_moving c then stop_all_safe now c else Returned () c)"

definition timed_movement :: "clock \<Rightarrow> controller \<Rightarrow> (unit, controller) outcome" where
  "timed_movement now c = stop_all_safe now c"

text \<open>
  The moves of \<^verbatim>\<open>_enhanced_dance\<close>: what each one does to the wheels and how long the
  thread sleeps after it.
\<close>

definition dance_moves :: "((int motors \<Rightarrow> int motors) \<times> clock) list" where
  "dance_moves =
     [(move_forward 40, 1), (move_backward 40, 1), (strafe_left 35, 3 / 2), (strafe_right 35, 3 / 2),
      (turn_left 45, 2), (turn_right 45, 2), (diagonal_forward_left 30, 1), (spin_clockwise 50, 3)]"

text \<open>
  One turn of the loop of \<^verbatim>\<open>_enhanced_dance\<close>: leave the loop when the moves are used up
  or \<^verbatim>\<open>is_moving\<close> is false and call \<^verbatim>\<open>stop_all_safe\<close>; otherwise do the move and sleep.
\<close>

definition enhanced_dance :: "clock \<Rightarrow> nat \<Rightarrow> controller \<Rightarrow> (unit, controller) outcome" where
  "enhanced_dance now k c =
     (if k < length dance_moves \<and> is_moving c then
        (case dance_moves ! k of
           (act, pause) \<Rightarrow>
             Returned () (c\<lparr>motors := act (motors c),
                            threads := threads c @ [(now + pause, Enhanced_dance (Suc k))]\<rparr>))
      else stop_all_safe now c)"

fun resume :: "clock \<Rightarrow> target \<Rightarrow> controller \<Rightarrow> (unit, controller) outcome" where
  "resume now Movement_timeout_check c = movement_timeout_check now c"
| "resume now Clear_emergency_stop c = clear_emergency_stop c"
| "resume now Timed_movement c = timed_movement now c"
| "resume now (Enhanced_dance k) c = enhanced_dance now k c"

text \<open>
  The \<open>i\<close>-th live thread wakes when its sleep ends: it leaves the list of sleeping
  threads and runs its body.
\<close>

definition wake :: "nat \<Rightarrow> controller \<Rightarrow> (unit, controller) outcome" where
  "wake i c =
     (if i < length (threads c) then
        (case threads c ! i of
           (t, tg) \<Rightarrow> resume t tg (c\<lparr>threads := take i (threads c) @ drop (Suc i) (threads c)\<rparr>))
      else Returned () c)"

text \<open>The live watchdogs: the started \<^verbatim>\<open>_movement_timeout_check\<close> threads that have not run yet.\<close>

definition watchdogs :: "controller \<Rightarrow> thread list" where
  "watchdogs c = filter (\<lambda>th. snd th = Movement_timeout_check) (threads c)"

subsection \<open>Voice commands\<close>

text \<open>
  The six directional commands differ only in the action name, the gait and the first
  words of the message. A keyword argument that is not passed is \<open>None\<close>.
\<close>

definition voice_move :: "string \<Rightarrow> (int \<Rightarrow> int motors \<Rightarrow> int motors) \<Rightarrow> string
    \<Rightarrow> clock \<Rightarrow> int option \<Rightarrow> int option \<Rightarrow> controller \<Rightarrow> (string, controller) outcome" where
  "voice_move action_name gait words now speed duration c =
     (case start_movement now action_name c of
        Blocked c' \<Rightarrow> Blocked c'
      | Returned ok c1 \<Rightarrow>
          if \<not> ok then Returned ''Cannot move - emergency stop active'' c1
          else
            (case set_speed_limit (py_or speed (current_speed c1)) c1 of
               (speed', c2) \<Rightarrow>
                 (let c3 = c2\<lparr>motors := gait speed' (motors c2)\<rparr> in
                  case truthy duration of
                    Some d \<Rightarrow>
                      Returned (words @ '' at '' @ str_int speed' @ ''% speed for '' @
                                str_int d @ '' seconds'')
                        (c3\<lparr>threads := threads c3 @ [(now + of_int d, Timed_movement)]\<rparr>)
                  | None \<Rightarrow>
                      Returned (words @ '' at '' @ str_int speed' @ ''% speed'') c3)))"

definition voice_move_forward :: "clock \<Rightarrow> int option \<Rightarrow> int option \<Rightarrow> controller \<Rightarrow> (string, controller) outcome" where
  "voice_move_forward = voice_move ''moving forward'' move_forward ''Moving forward''"

definition voice_move_backward :: "clock \<Rightarrow> int option \<Rightarrow> int option \<Rightarrow> controller \<Rightarrow> (string, controller) outcome" where
  "voice_move_backward = voice_move ''moving backward'' move_backward ''Moving backward''"

definition voice_turn_left :: "clock \<Rightarrow> int option \<Rightarrow> int option \<Rightarrow> controller \<Rightarrow> (string, controller) outcome" where
  "voice_turn_left = voice_move ''turning left'' turn_left ''Turning left''"

definition voice_turn_right :: "clock \<Rightarrow> int option \<Rightarrow> int option \<Rightarrow> controller \<Rightarrow> (string, controller) outcome" where
  "voice_turn_right = voice_move ''turning right'' turn_right ''Turning right''"

definition voice_strafe_left :: "clock \<Rightarrow> int option \<Rightarrow> int option \<Rightarrow> controller \<Rightarrow> (string, controller) outcome" where
  "voice_strafe_left = voice_move ''strafing left'' strafe_left ''Moving left sideways''"

definition voice_strafe_right :: "clock \<Rightarrow> int option \<Rightarrow> int option \<Rightarrow> controller \<Rightarrow> (string, controller) outcome" where
  "voice_strafe_right = voice_move ''strafing right'' strafe_right ''Moving right sideways''"

text \<open>\<^verbatim>\<open>voice_spin_around(speed=None, duration=2)\<close> always starts the timed stop.\<close>

definition voice_spin_around :: "clock \<Rightarrow> int option \<Rightarrow> int option \<Rightarrow> controller \<Rightarrow> (string, controller) outcome" where
  "voice_spin_around now speed duration c =
     (case start_movement now ''spinning around'' c of
        Blocked c' \<Rightarrow> Blocked c'
      | Returned ok c1 \<Rightarrow>
          if \<not> ok then Returned ''Cannot move - emergency stop active'' c1
          else
            (case set_speed_limit (py_or speed (current_speed c1 - 10)) c1 of
               (speed', c2) \<Rightarrow>
                 (let d = (case duration of None \<Rightarrow> 2 | Some v \<Rightarrow> v);
                      c3 = c2\<lparr>motors := spin_clockwise speed' (motors c2)\<rparr>
                  in Returned (''Spinning around at '' @ str_int speed' @ ''% speed for '' @
                               str_int d @ '' seconds'')
                       (c3\<lparr>threads := threads c3 @ [(now + of_int d, Timed_movement)]\<rparr>))))"

definition voice_dance_mode :: "clock \<Rightarrow> controller \<Rightarrow> (string, controller) outcome" where
  "voice_dance_mode now c =
     (case start_movement now ''dancing'' c of
        Blocked c' \<Rightarrow> Blocked c'
      | Returned ok c1 \<Rightarrow>
          if \<not> ok then Returned ''Cannot move - emergency stop active'' c1
          else Returned ''Let me show you my moves! Starting dance mode!''
                 (c1\<lparr>threads := threads c1 @ [(now, Enhanced_dance 0)]\<rparr>))"

text \<open>\<^verbatim>\<open>voice_come_here(duration=2)\<close> has no \<^verbatim>\<open>speed\<close> parameter.\<close>

definition voice_come_here :: "clock \<Rightarrow> int option \<Rightarrow> controller \<Rightarrow> (string, controller) outcome" where
  "voice_come_here now duration c =
     (case start_movement now ''coming to you'' c of
        Blocked c' \<Rightarrow> Blocked c'
      | Returned ok c1 \<Rightarrow>
          if \<not> ok then Returned ''Cannot move - emergency stop active'' c1
          else
            (case set_speed_limit 30 c1 of
               (speed', c2) \<Rightarrow>
                 (let d = (case duration of None \<Rightarrow> 2 | Some v \<Rightarrow> v);
                      c3 = c2\<lparr>motors := move_forward speed' (motors c2)\<rparr>
                  in Returned (''Coming to you at safe speed for '' @ str_int d @ '' seconds'')
                       (c3\<lparr>threads := threads c3 @ [(now + of_int d, Timed_movement)]\<rparr>))))"

subsection \<open>Status\<close>

record movement_status =
  status_is_moving :: bool
  status_current_action :: string
  status_current_speed :: int
  status_emergency_stop_active :: bool
  status_total_movements :: nat
  status_movement_duration :: clock

definition get_movement_status :: "clock \<Rightarrow> controller \<Rightarrow> movement_status" where
  "get_movement_status now c =
     \<lparr>status_is_moving = is_moving c,
      status_current_action = current_action c,
      status_current_speed = current_speed c,
      status_emergency_stop_active = emergency_stop_active c,
      status_total_movements = total_movements c,
      status_movement_duration =
        (case movement_start_time c of None \<Rightarrow> 0 | Some t \<Rightarrow> if t = 0 then 0 else now - t)\<rparr>"


section \<open>Command interpreter (\<^verbatim>\<open>movement_comands.py\<close>)\<close>

subsection \<open>The regular expressions\<close>

text \<open>
  The patterns of the source are sequences of a few constructs of Python's \<^verbatim>\<open>re\<close>: a word
  boundary \<^verbatim>\<open>\b\<close>, a literal, an alternative of literals \<^verbatim>\<open>(a|b|c)\<close>, \<^verbatim>\<open>\s+\<close>, \<^verbatim>\<open>\s*\<close>, the
  group \<^verbatim>\<open>(\d+)\<close> and an optional character \<^verbatim>\<open>c?\<close>. Utterances are ASCII strings; every search
  of the source passes \<^verbatim>\<open>re.IGNORECASE\<close>, so literals are compared without case.
\<close>

datatype atom = WordB | Str string | Alts "string list" | Spaces1 | Spaces0 | Digits1 | OptChr char

type_synonym regex = "atom list"

definition is_space :: "char \<Rightarrow> bool" where
  "is_space c = (let n = (of_char c :: nat) in (9 \<le> n \<and> n \<le> 13) \<or> (28 \<le> n \<and> n \<le> 32))"

definition is_digit :: "char \<Rightarrow> bool" where
  "is_digit c = (let n = (of_char c :: nat) in 48 \<le> n \<and> n \<le> 57)"

definition is_word :: "char \<Rightarrow> bool" where
  "is_word c = (let n = (of_char c :: nat) in
     (48 \<le> n \<and> n \<le> 57) \<or> (65 \<le> n \<and> n \<le> 90) \<or> n = 95 \<or> (97 \<le> n \<and> n \<le> 122))"

definition lower_chr :: "char \<Rightarrow> char" where
  "lower_chr c = (let n = (of_char c :: nat) in if 65 \<le> n \<and> n \<le> 90 then char_of (n + 32) else c)"

text \<open>
  A position of the matcher: the character before it (if any), the text after it, and
  what group 1 has captured so far.
\<close>

type_synonym cursor = "char option \<times> string \<times> string"

definition at_boundary :: "cursor \<Rightarrow> bool" where
  "at_boundary cur =
     (case cur of (prev, rest, g) \<Rightarrow>
        (case prev of None \<Rightarrow> False | Some c \<Rightarrow> is_word c) \<noteq>
        (case rest of [] \<Rightarrow> False | c # cs \<Rightarrow> is_word c))"

fun eat :: "string \<Rightarrow> cursor \<Rightarrow> cursor option" where
  "eat [] cur = Some cur"
| "eat (p # ps) (prev, [], g) = None"
| "eat (p # ps) (prev, c # cs, g) =
     (if lower_chr p = lower_chr c then eat ps (Some c, cs, g) else None)"

text \<open>
  A greedy repetition of one character class: every number of characters it may take,
  the longest first, the empty one last, which is the order in which a backtracking
  matcher tries them.
\<close>

fun munch :: "(char \<Rightarrow> bool) \<Rightarrow> bool \<Rightarrow> cursor \<Rightarrow> cursor list" where
  "munch P capture (prev, [], g) = [(prev, [], g)]"
| "munch P capture (prev, c # cs, g) =
     (if P c then munch P capture (Some c, cs, if capture then g @ [c] else g) @ [(prev, c # cs, g)]
      else [(prev, c # cs, g)])"

fun atom_step :: "atom \<Rightarrow> cursor \<Rightarrow> cursor list" where
  "atom_step WordB cur = (if at_boundary cur then [cur] else [])"
| "atom_step (Str s) cur = (case eat s cur of None \<Rightarrow> [] | Some cur' \<Rightarrow> [cur'])"
| "atom_step (Alts ss) cur = List.map_filter (\<lambda>s. eat s cur) ss"
| "atom_step Spaces1 cur = butlast (munch is_space False cur)"
| "atom_step Spaces0 cur = munch is_space False cur"
| "atom_step Digits1 cur = butlast (munch is_digit True cur)"
| "atom_step (OptChr c) cur = (case eat [c] cur of None \<Rightarrow> [] | Some cur' \<Rightarrow> [cur']) @ [cur]"

fun match_here :: "regex \<Rightarrow> cursor \<Rightarrow> cursor list" where
  "match_here [] cur = [cur]"
| "match_here (a # as) cur = concat (map (match_here as) (atom_step a cur))"

text \<open>
  \<^verbatim>\<open>re.search\<close>: the leftmost position where the pattern matches, and there the first
  match in the order of backtracking. The result is what group 1 captured (empty when
  the pattern has no group), or \<open>None\<close> when there is no match.
\<close>

fun search_from :: "regex \<Rightarrow> char option \<Rightarrow> string \<Rightarrow> string option" where
  "search_from r prev [] =
     (case match_here r (prev, [], []) of [] \<Rightarrow> None | cur # curs \<Rightarrow> Some (snd (snd cur)))"
| "search_from r prev (c # cs) =
     (case match_here r (prev, c # cs, []) of
        [] \<Rightarrow> search_from r (Some c) cs
      | cur # curs \<Rightarrow> Some (snd (snd cur)))"

definition re_search :: "regex \<Rightarrow> string \<Rightarrow> string option" where
  "re_search r text = search_from r None text"

text \<open>\<^verbatim>\<open>str.lower()\<close>, \<^verbatim>\<open>str.strip()\<close> and \<^verbatim>\<open>int()\<close> of a string of digits.\<close>

definition lower :: "string \<Rightarrow> string" where
  "lower s = map lower_chr s"

definition strip :: "string \<Rightarrow> string" where
  "strip s = rev (dropWhile is_space (rev (dropWhile is_space s)))"

definition int_of_digits :: "string \<Rightarrow> int" where
  "int_of_digits s = foldl (\<lambda>acc c. 10 * acc + (int (of_char c) - 48)) 0 s"


subsection \<open>Pattern tables\<close>

text \<open>Shorthands for the shapes that occur: \<^verbatim>\<open>\bw\b\<close> and \<^verbatim>\<open>\bw1\s+w2\b\<close>.\<close>

definition word1 :: "string \<Rightarrow> regex" where
  "word1 w = [WordB, Str w, WordB]"

definition word2 :: "string \<Rightarrow> string \<Rightarrow> regex" where
  "word2 w1 w2 = [WordB, Str w1, Spaces1, Str w2, WordB]"

definition command_patterns :: "(string \<times> regex list) list" where
  "command_patterns =
     [(''move_forward'',
         [[WordB, Alts [''move'', ''go'', ''walk''], Spaces1, Alts [''forward'', ''ahead'', ''straight''], WordB],
          word1 ''forward'', word2 ''go'' ''forward'', word2 ''move'' ''ahead'']),
      (''move_backward'',
         [[WordB, Alts [''move'', ''go'', ''walk''], Spaces1, Alts [''backward'', ''back'', ''backwards''], WordB],
          word1 ''backward'', word2 ''go'' ''back'', word2 ''move'' ''back'', word1 ''reverse'']),
      (''turn_left'',
         [word2 ''turn'' ''left'', word2 ''go'' ''left'', word2 ''left'' ''turn'', word2 ''rotate'' ''left'']),
      (''turn_right'',
         [word2 ''turn'' ''right'', word2 ''go'' ''right'', word2 ''right'' ''turn'', word2 ''rotate'' ''right'']),
      (''strafe_left'',
         [[WordB, Alts [''move'', ''strafe'', ''slide''], Spaces1, Str ''left'', WordB],
          word2 ''sideway'' ''left'', word2 ''step'' ''left'']),
      (''strafe_right'',
         [[WordB, Alts [''move'', ''strafe'', ''slide''], Spaces1, Str ''right'', WordB],
          word2 ''sideway'' ''right'', word2 ''step'' ''right'']),
      (''spin_around'',
         [[WordB, Str ''spin'', Spaces1, Alts [''around'', ''clockwise''], WordB],
          word2 ''turn'' ''around'',
          [WordB, Str ''rotate'', Spaces1, Alts [''around'', ''full''], WordB],
          word1 ''spin'']),
      (''dance'',
         [word1 ''dance'',
          [WordB, Str ''show'', Spaces1, Str ''me'', Spaces1, Str ''your'', Spaces1, Str ''moves'', WordB],
          word2 ''dance'' ''mode'',
          word2 ''let's'' ''dance'']),
      (''come_here'',
         [word2 ''come'' ''here'',
          [WordB, Str ''come'', Spaces1, Str ''to'', Spaces1, Str ''me'', WordB],
          word2 ''come'' ''over'', word1 ''approach'']),
      (''stop'',
         [word1 ''stop'', word1 ''halt'', word2 ''stop'' ''moving'', word1 ''freeze'']),
      (''emergency_stop'',
         [word2 ''emergency'' ''stop'', word2 ''stop'' ''now'', word2 ''stop'' ''immediately'',
          [WordB, Str ''E'', Spaces0, Str ''STOP'', WordB]])]"

definition speed_patterns :: "(string \<times> regex list) list" where
  "speed_patterns =
     [(''slow'', [word1 ''slow'', word1 ''slowly'', word1 ''carefully'']),
      (''fast'', [word1 ''fast'', word1 ''quick'', word1 ''quickly'', word1 ''rapid'']),
      (''normal'', [word1 ''normal'', word1 ''regular'', word1 ''medium''])]"

text \<open>A duration pattern converts its match to seconds: group 1 as an integer, or a constant.\<close>

datatype converter = Group_int | Const int

definition duration_patterns :: "(regex \<times> converter) list" where
  "duration_patterns =
     [([WordB, Str ''for'', Spaces1, Digits1, Spaces1, Str ''second'', OptChr CHR ''s'', WordB], Group_int),
      ([WordB, Str ''for'', Spaces1, Digits1, Spaces1, Str ''sec'', WordB], Group_int),
      ([WordB, Digits1, Spaces1, Str ''second'', OptChr CHR ''s'', WordB], Group_int),
      (word2 ''a'' ''bit'', Const 1),
      (word2 ''a'' ''little'', Const 1),
      (word2 ''a'' ''while'', Const 3),
      (word2 ''a'' ''moment'', Const 2)]"

subsection \<open>Matching and the modifiers\<close>

text \<open>\<^verbatim>\<open>_match_command(text, command_type)\<close>: an unknown command type has no patterns.\<close>

definition match_command :: "string \<Rightarrow> string \<Rightarrow> bool" where
  "match_command text command_type =
     (case map_of command_patterns command_type of
        None \<Rightarrow> False
      | Some patterns \<Rightarrow> list_ex (\<lambda>pattern. re_search pattern text \<noteq> None) patterns)"

text \<open>\<^verbatim>\<open>_extract_speed(text)\<close>: the first speed class with a matching pattern decides.\<close>

fun extract_speed_from :: "(string \<times> regex list) list \<Rightarrow> string \<Rightarrow> int option" where
  "extract_speed_from [] text = None"
| "extract_speed_from ((speed_type, patterns) # rest) text =
     (if list_ex (\<lambda>pattern. re_search pattern text \<noteq> None) patterns then
        (if speed_type = ''slow'' then Some 30
         else if speed_type = ''fast'' then Some 65
         else if speed_type = ''normal'' then Some 50
         else extract_speed_from rest text)
      else extract_speed_from rest text)"

definition extract_speed :: "string \<Rightarrow> int option" where
  "extract_speed text = extract_speed_from speed_patterns text"

text \<open>\<^verbatim>\<open>_extract_duration(text)\<close>: the first duration pattern that matches decides.\<close>

fun extract_duration_from :: "(regex \<times> converter) list \<Rightarrow> string \<Rightarrow> int option" where
  "extract_duration_from [] text = None"
| "extract_duration_from ((pattern, conv) # rest) text =
     (case re_search pattern text of
        None \<Rightarrow> extract_duration_from rest text
      | Some g \<Rightarrow> (case conv of Group_int \<Rightarrow> Some (int_of_digits g) | Const n \<Rightarrow> Some n))"

definition extract_duration :: "string \<Rightarrow> int option" where
  "extract_duration text = extract_duration_from duration_patterns text"

text \<open>\<^verbatim>\<open>is_movement_command(voice_text)\<close>: some pattern of some command type matches.\<close>

definition is_movement_command :: "string \<Rightarrow> bool" where
  "is_movement_command voice_text =
     (if voice_text = [] then False
      else (let text = strip (lower voice_text) in
            list_ex (\<lambda>(command_type, patterns).
                       list_ex (\<lambda>pattern. re_search pattern text \<noteq> None) patterns)
              command_patterns))"

subsection \<open>The processor\<close>

record command_entry =
  cmd_text :: string
  cmd_timestamp :: clock
  cmd_processed :: bool
  cmd_command_type :: "string option"
  cmd_success :: "bool option"

record processor =
  command_history :: "command_entry list"
  last_command_time :: clock

definition initial_processor :: processor where
  "initial_processor = \<lparr>command_history = [], last_command_time = 0\<rparr>"

text \<open>The result dictionary; a key that is absent reads \<open>None\<close>.\<close>

record command_result =
  res_success :: bool
  res_response :: string
  res_command_type :: "string option"
  res_speed :: "int option"
  res_duration :: "int option"

definition record_success :: "clock \<Rightarrow> string \<Rightarrow> processor \<Rightarrow> processor" where
  "record_success now command_type p =
     p\<lparr>command_history :=
         (case rev (command_history p) of
            [] \<Rightarrow> []
          | e # es \<Rightarrow>
              rev es @ [e\<lparr>cmd_processed := True, cmd_command_type := Some command_type,
                          cmd_success := Some True\<rparr>]),
       last_command_time := now\<rparr>"

definition conversation_starters :: "(string \<times> string list) list" where
  "conversation_starters =
     [(''move_forward'', [''Alright, '', ''Sure thing! '', ''Moving forward! '', ''Here I go! '']),
      (''move_backward'', [''Going back! '', ''Backing up! '', ''Reversing! '', ''Moving backwards! '']),
      (''turn_left'', [''Turning left! '', ''Going left! '', ''Left turn coming up! '']),
      (''turn_right'', [''Turning right! '', ''Going right! '', ''Right turn! '']),
      (''strafe_left'', [''Sliding left! '', ''Strafing left! '', ''Moving sideways! '']),
      (''strafe_right'', [''Sliding right! '', ''Strafing right! '', ''Going sideways! '']),
      (''spin_around'', [''Time to spin! '', ''Here comes a spin! '', ''Spinning around! '']),
      (''dance'', [''Let's dance! '', ''Time to boogie! '', ''Dance time! '']),
      (''come_here'', [''Coming to you! '', ''On my way! '', ''Approaching! ''])]"

fun join :: "string \<Rightarrow> string list \<Rightarrow> string" where
  "join sep [] = []"
| "join sep [x] = x"
| "join sep (x # y # ys) = x @ sep @ join sep (y # ys)"

text \<open>
  \<^verbatim>\<open>_add_conversational_context\<close>. \<^verbatim>\<open>random.choice(starters)\<close> takes the element at an index
  drawn from outside, the argument \<open>rnd\<close>.
\<close>

definition add_conversational_context :: "nat \<Rightarrow> string \<Rightarrow> string \<Rightarrow> int option \<Rightarrow> int option \<Rightarrow> string" where
  "add_conversational_context rnd base_response command_type speed duration =
     (let starters = (case map_of conversation_starters command_type of None \<Rightarrow> [[]] | Some l \<Rightarrow> l);
          starter = (if starters = [] then [] else starters ! (rnd mod length starters));
          part1 = (case truthy speed of
                     None \<Rightarrow> []
                   | Some v \<Rightarrow> if v \<le> 35 then [''taking it slow'']
                               else if v \<ge> 60 then [''moving quickly''] else []);
          part2 = (case truthy duration of
                     None \<Rightarrow> []
                   | Some d \<Rightarrow> if d \<le> 2 then [''just for a moment'']
                               else if d \<ge> 5 then [''for a while''] else []);
          context = join '' and '' (part1 @ part2);
          context' = (if context = [] then [] else '' - '' @ context)
      in starter @ base_response @ context' @ ''!'')"

text \<open>
  The call \<^verbatim>\<open>method(**kwargs)\<close> of \<^verbatim>\<open>_execute_movement_command\<close>, for a command type of
  \<^verbatim>\<open>command_map\<close>. The dance takes no arguments. \<^verbatim>\<open>voice_come_here\<close> has no \<^verbatim>\<open>speed\<close>
  parameter, so passing one raises \<^verbatim>\<open>TypeError\<close> before the method runs: \<open>Inl\<close> is the text
  of the exception, \<open>Inr\<close> the method's answer.
\<close>

definition command_map :: "string list" where
  "command_map = [''move_forward'', ''move_backward'', ''turn_left'', ''turn_right'',
                  ''strafe_left'', ''strafe_right'', ''spin_around'', ''dance'', ''come_here'']"

fun answered :: "(string, controller) outcome \<Rightarrow> (string + string, controller) outcome" where
  "answered (Returned r c) = Returned (Inr r) c"
| "answered (Blocked c) = Blocked c"

definition call_method :: "string \<Rightarrow> clock \<Rightarrow> int option \<Rightarrow> int option \<Rightarrow> controller
    \<Rightarrow> (string + string, controller) outcome" where
  "call_method command_type now speed duration c =
     (if command_type = ''dance'' then answered (voice_dance_mode now c)
      else if command_type = ''come_here'' then
        (if speed \<noteq> None
         then Returned (Inl (''voice_come_here() got an unexpected keyword argument 'speed'' @ [CHR 0x27])) c
         else answered (voice_come_here now duration c))
      else if command_type = ''move_forward'' then answered (voice_move_forward now speed duration c)
      else if command_type = ''move_backward'' then answered (voice_move_backward now speed duration c)
      else if command_type = ''turn_left'' then answered (voice_turn_left now speed duration c)
      else if command_type = ''turn_right'' then answered (voice_turn_right now speed duration c)
      else if command_type = ''strafe_left'' then answered (voice_strafe_left now speed duration c)
      else if command_type = ''strafe_right'' then answered (voice_strafe_right now speed duration c)
      else answered (voice_spin_around now speed duration c))"

definition failure :: "string \<Rightarrow> command_result" where
  "failure msg = \<lparr>res_success = False, res_response = msg, res_command_type = None,
                  res_speed = None, res_duration = None\<rparr>"

definition execute_movement_command :: "clock \<Rightarrow> nat \<Rightarrow> string \<Rightarrow> int option \<Rightarrow> int option
    \<Rightarrow> processor \<times> controller \<Rightarrow> (command_result, processor \<times> controller) outcome" where
  "execute_movement_command now rnd command_type speed duration pc =
     (case pc of (p, c) \<Rightarrow>
        if command_type \<notin> set command_map
        then Returned (failure (''Unknown command type: '' @ command_type)) (p, c)
        else
          (case call_method command_type now speed duration c of
             Blocked c' \<Rightarrow> Blocked (p, c')
           | Returned (Inl e) c' \<Rightarrow>
               Returned (failure (''Sorry, I couldn't execute that movement: '' @ e)) (p, c')
           | Returned (Inr response) c' \<Rightarrow>
               Returned
                 \<lparr>res_success = True,
                  res_response = add_conversational_context rnd response command_type speed duration,
                  res_command_type = Some command_type,
                  res_speed = speed, res_duration = duration\<rparr>
                 (record_success now command_type p, c')))"

text \<open>
  The block of \<^verbatim>\<open>process_voice_command\<close> that records the command: the normalised
  text is appended to the history, of which the last 20 entries are kept.
\<close>

definition record_command :: "clock \<Rightarrow> string \<Rightarrow> processor \<Rightarrow> processor" where
  "record_command now text p =
     (let h = command_history p @
                [\<lparr>cmd_text = text, cmd_timestamp = now, cmd_processed = False,
                  cmd_command_type = None, cmd_success = None\<rparr>]
      in p\<lparr>command_history := (if length h > 20 then drop (length h - 20) h else h)\<rparr>)"

text \<open>
  \<^verbatim>\<open>process_voice_command(voice_text)\<close>. The emergency patterns are tried first, then the
  stop patterns, then the other command types in the order of the table.
\<close>

definition process_voice_command :: "clock \<Rightarrow> nat \<Rightarrow> string \<Rightarrow> processor \<times> controller
    \<Rightarrow> (command_result, processor \<times> controller) outcome" where
  "process_voice_command now rnd voice_text pc =
     (case pc of (p, c) \<Rightarrow>
        if voice_text = [] then Returned (failure ''No voice input received'') (p, c)
        else
          (let text = strip (lower voice_text);
               p1 = record_command now text p
           in
           if match_command text ''emergency_stop'' then
             (case emergency_stop now c of
                Blocked c' \<Rightarrow> Blocked (p1, c')
              | Returned response c' \<Rightarrow>
                  Returned
                    \<lparr>res_success = True, res_response = response,
                     res_command_type = Some ''emergency_stop'', res_speed = None, res_duration = None\<rparr>
                    (record_success now ''emergency_stop'' p1, c'))
           else if match_command text ''stop'' then
             (case stop_all_safe now c of
                Blocked c' \<Rightarrow> Blocked (p1, c')
              | Returned u c' \<Rightarrow>
                  Returned
                    \<lparr>res_success = True, res_response = ''Stopping all movement'',
                     res_command_type = Some ''stop'', res_speed = None, res_duration = None\<rparr>
                    (record_success now ''stop'' p1, c'))
           else
             (let speed = extract_speed text;
                  duration = extract_duration text
              in case find (\<lambda>command_type. command_type \<notin> set [''stop'', ''emergency_stop'']
                                             \<and> match_command text command_type)
                        (map fst command_patterns) of
                   Some command_type \<Rightarrow>
                     execute_movement_command now rnd command_type speed duration (p1, c)
                 | None \<Rightarrow>
                     Returned (failure ''I didn't understand that movement command'') (p1, c))))"

section \<open>Robot state machine (\<^verbatim>\<open>enhanced_brain_module_with_movements.py\<close>)\<close>

text \<open>
  The part of \<^verbatim>\<open>EnhancedElleeBrainWithMovement\<close> that deals with movement. The constructor
  sets \<^verbatim>\<open>movement_enabled\<close>, \<^verbatim>\<open>motor_controller\<close> and \<^verbatim>\<open>movement_processor\<close> together (all
  three present, or \<^verbatim>\<open>False\<close> and twice \<^verbatim>\<open>None\<close>) and nothing changes them later: they are
  one optional field. Speech capture, speech output, vision, the language model and the
  memory are outside collaborators; of those only the texts handed to \<^verbatim>\<open>_speak\<close> and
  the movement entries of the conversation record are kept.
\<close>

datatype robot_state = IDLE | LISTENING | THINKING | SPEAKING | ENGAGING | LEARNING | MOVING

record brain =
  state :: robot_state
  person_detected :: bool
  conversation_active :: bool
  brain_movement_timeout :: int
  movement :: "(processor \<times> controller) option"
  messages :: "(string \<times> clock) list"
  movement_commands :: "(string \<times> string option \<times> clock) list"
  spoken :: "string list"
  speaking_threads :: nat

definition initial_brain :: brain where
  "initial_brain =
     \<lparr>state = IDLE, person_detected = False, conversation_active = False,
      brain_movement_timeout = 30, movement = Some (initial_processor, initial_controller),
      messages = [], movement_commands = [], spoken = [], speaking_threads = 0\<rparr>"

definition transition_to_idle :: "brain \<Rightarrow> brain" where
  "transition_to_idle b = (if state b \<noteq> IDLE then b\<lparr>state := IDLE\<rparr> else b)"

definition transition_to_listening :: "brain \<Rightarrow> brain" where
  "transition_to_listening b = (if state b \<noteq> LISTENING then b\<lparr>state := LISTENING\<rparr> else b)"

definition transition_to_speaking :: "brain \<Rightarrow> brain" where
  "transition_to_speaking b = b\<lparr>state := SPEAKING\<rparr>"

definition transition_to_moving :: "brain \<Rightarrow> brain" where
  "transition_to_moving b = (if state b \<noteq> MOVING then b\<lparr>state := MOVING\<rparr> else b)"

text \<open>
  \<^verbatim>\<open>_speak(text)\<close> does not change the state while moving; it starts a thread that speaks
  and then runs \<open>speak_and_return\<close>.
\<close>

definition speak :: "string \<Rightarrow> brain \<Rightarrow> brain" where
  "speak text b =
     (let b1 = (if state b \<noteq> MOVING then transition_to_speaking b else b)
      in b1\<lparr>spoken := spoken b1 @ [text], speaking_threads := Suc (speaking_threads b1)\<rparr>)"

definition speak_and_return :: "brain \<Rightarrow> brain" where
  "speak_and_return b =
     (let b1 = b\<lparr>speaking_threads := speaking_threads b - 1\<rparr> in
      if state b1 = SPEAKING then
        (if conversation_active b1 \<and> person_detected b1 then transition_to_listening b1
         else if \<not> person_detected b1 then transition_to_idle b1
         else b1)
      else b1)"

text \<open>\<^verbatim>\<open>_handle_movement_state()\<close>, run by the main loop on each tick in state \<open>MOVING\<close>.\<close>

definition handle_movement_state :: "clock \<Rightarrow> brain \<Rightarrow> (unit, brain) outcome" where
  "handle_movement_state now b =
     (case movement b of
        None \<Rightarrow> Returned () (transition_to_listening b)
      | Some (p, c) \<Rightarrow>
          (let status = get_movement_status now c in
           if \<not> status_is_moving status then
             Returned () (if person_detected b then transition_to_listening b else transition_to_idle b)
           else if status_movement_duration status > of_int (brain_movement_timeout b) then
             (case stop_all_safe now c of
                Blocked c' \<Rightarrow> Blocked (b\<lparr>movement := Some (p, c')\<rparr>)
              | Returned u c' \<Rightarrow> Returned () (b\<lparr>movement := Some (p, c')\<rparr>))
           else Returned () b))"

text \<open>
  \<^verbatim>\<open>_process_movement_command(speech_text)\<close>. Without a movement processor the call
  \<^verbatim>\<open>self.movement_processor.process_voice_command\<close> raises \<^verbatim>\<open>AttributeError\<close>.
\<close>

datatype exn = AttributeError

definition process_movement_command :: "clock \<Rightarrow> nat \<Rightarrow> string \<Rightarrow> brain \<Rightarrow> (exn + unit, brain) outcome" where
  "process_movement_command now rnd speech_text b =
     (let b1 = transition_to_moving b;
          b2 = b1\<lparr>messages := messages b1 @ [(speech_text, now)]\<rparr>
      in case movement b2 of
           None \<Rightarrow> Returned (Inl AttributeError) b2
         | Some pc \<Rightarrow>
             (case process_voice_command now rnd speech_text pc of
                Blocked pc' \<Rightarrow> Blocked (b2\<lparr>movement := Some pc'\<rparr>)
              | Returned result pc' \<Rightarrow>
                  (let b3 = b2\<lparr>movement := Some pc'\<rparr> in
                   if res_success result then
                     Returned (Inr ())
                       (speak (res_response result)
                          (b3\<lparr>movement_commands :=
                                movement_commands b3 @ [(speech_text, res_command_type result, now)]\<rparr>))
                   else
                     Returned (Inr ())
                       (transition_to_listening
                          (speak (''Sorry, I couldn't execute that movement command: '' @
                                  res_response result) b3)))))"

text \<open>
  \<^verbatim>\<open>_process_speech_with_movement(speech_text)\<close>, which the main loop calls in state
  \<open>LISTENING\<close>: a movement command goes to \<^verbatim>\<open>_process_movement_command\<close>; any other text
  goes to the conversation handlers, which are not part of this development (\<open>None\<close>).
\<close>

definition process_speech_with_movement :: "clock \<Rightarrow> nat \<Rightarrow> string \<Rightarrow> brain
    \<Rightarrow> (exn + unit, brain) outcome option" where
  "process_speech_with_movement now rnd speech_text b =
     (if movement b \<noteq> None \<and> is_movement_command speech_text
      then Some (process_movement_command now rnd speech_text b)
      else None)"

section \<open>Properties of the wheel driver\<close>

subsection \<open>What one call stores\<close>

lemma list_all_update:
  "list_all (\<lambda>(k, v). Q v) al \<Longrightarrow> Q v \<Longrightarrow> list_all (\<lambda>(k, v). Q v) (AList.update k v al)"
  by (induction al) auto

lemma motors_ok_set_motor_speed:
  fixes speed :: "'a::linordered_idom"
  shows "motors_ok ms \<Longrightarrow> motors_ok (set_motor_speed motor_name speed ms)"
  unfolding motors_ok_def set_motor_speed_def Let_def
  by (auto split: option.splits intro!: list_all_update simp: motor_ok_def)

lemma motors_ok_set_motor_speeds:
  fixes ms :: "'a::linordered_idom motors"
  shows "motors_ok ms \<Longrightarrow> motors_ok (set_motor_speeds calls ms)"
  unfolding set_motor_speeds_def
  by (induction calls arbitrary: ms) (auto simp: motors_ok_set_motor_speed)

lemma motors_ok_initial: "motors_ok initial_motors"
  by (simp add: motors_ok_def initial_motors_def motor_ok_def)

text \<open>
  The table after a call: the named wheel, if there is one, holds the clamped speed on
  the side of its sign; every other wheel is untouched.
\<close>

lemma map_of_set_motor_speed:
  fixes v :: "'a::linordered_idom"
  shows "map_of (set_motor_speed n v ms) =
    (case map_of ms n of
       None \<Rightarrow> map_of ms
     | Some mo \<Rightarrow> (map_of ms)(n \<mapsto> mo\<lparr>speed_f := max 0 (max (- 100) (min 100 v)),
                                    speed_r := max 0 (- max (- 100) (min 100 v))\<rparr>))"
  unfolding set_motor_speed_def Let_def
  by (auto split: option.splits simp: update_conv' max_def min_def)

lemma wheel_set_motor_speed:
  fixes v :: "'a::linordered_idom"
  shows "wheel (set_motor_speed n v ms) k =
    (if k = n \<and> wheel ms n \<noteq> None then Some (max (- 100) (min 100 v)) else wheel ms k)"
  unfolding wheel_def map_of_set_motor_speed
  by (auto split: option.splits simp: max_def min_def)

lemma duties_set_motor_speed:
  fixes v :: "'a::linordered_idom"
  shows "duties (set_motor_speed n v ms) k =
    (if k = n \<and> duties ms n \<noteq> None
     then Some (max 0 (max (- 100) (min 100 v)), max 0 (- max (- 100) (min 100 v)))
     else duties ms k)"
  unfolding duties_def map_of_set_motor_speed
  by (auto split: option.splits)

lemma wheel_initial_motors:
  "wheel (initial_motors :: 'a::linordered_idom motors) k =
     (if k \<in> {''FL'', ''FR'', ''BR'', ''BL''} then Some 0 else None)"
  by (simp add: wheel_def initial_motors_def)

lemma duties_initial_motors:
  "duties (initial_motors :: 'a::linordered_idom motors) k =
     (if k \<in> {''FL'', ''FR'', ''BR'', ''BL''} then Some (0, 0) else None)"
  by (simp add: duties_def initial_motors_def)

lemma wheel_set_four_initial:
  fixes a b c d :: "'a::linordered_idom"
  defines "ms \<equiv> set_four (''FL'', a) (''FR'', b) (''BL'', c) (''BR'', d) initial_motors"
  shows "wheel ms ''FL'' = Some (max (- 100) (min 100 a))"
    and "wheel ms ''FR'' = Some (max (- 100) (min 100 b))"
    and "wheel ms ''BL'' = Some (max (- 100) (min 100 c))"
    and "wheel ms ''BR'' = Some (max (- 100) (min 100 d))"
  unfolding ms_def set_four_def
  by (simp_all add: wheel_set_motor_speed wheel_initial_motors)

subsection \<open>Stopping\<close>

lemma zero_duties_idem: "zero_duties (zero_duties m) = zero_duties m"
  by (simp add: zero_duties_def)

lemma map_of_set_motor_speed_zero:
  fixes ms :: "'a::linordered_idom motors"
  shows "map_of (set_motor_speed n 0 ms) =
    (\<lambda>k. if k = n then map_option zero_duties (map_of ms k) else map_of ms k)"
  unfolding set_motor_speed_def Let_def zero_duties_def
  by (auto split: option.splits simp: update_conv')

lemma map_of_fold_zero:
  fixes ms :: "'a::linordered_idom motors"
  shows "map_of (fold (\<lambda>n. set_motor_speed n 0) ns ms) =
     (\<lambda>k. if k \<in> set ns then map_option zero_duties (map_of ms k) else map_of ms k)"
proof (induction ns arbitrary: ms)
  case Nil
  then show ?case by simp
next
  case (Cons n ns)
  show ?case
    by (rule ext) (auto simp: Cons map_of_set_motor_speed_zero option.map_comp o_def zero_duties_idem)
qed

lemma map_of_stop_all:
  fixes ms :: "'a::linordered_idom motors"
  shows "map_of (stop_all ms) = (\<lambda>k. map_option zero_duties (map_of ms k))"
proof (rule ext)
  fix k
  show "map_of (stop_all ms) k = map_option zero_duties (map_of ms k)"
  proof (cases "k \<in> set (map fst ms)")
    case True
    then show ?thesis by (simp add: stop_all_def map_of_fold_zero)
  next
    case False
    then have "map_of ms k = None" by (simp add: map_of_eq_None_iff)
    with False show ?thesis by (simp add: stop_all_def map_of_fold_zero)
  qed
qed




lemma duties_stop_all:
  fixes ms :: "'a::linordered_idom motors"
  shows "duties (stop_all ms) n = map_option (\<lambda>d. (0, 0)) (duties ms n)"
  by (simp add: duties_def map_of_stop_all option.map_comp o_def zero_duties_def)

subsection \<open>The duties of a wheel stay in range and exclusive\<close>

text \<open>
  Claim C8. Start from the table the constructor builds and make any sequence of
  \<^verbatim>\<open>set_motor_speed\<close> calls, with any wheel names and any integer speeds. Then every
  wheel of the table has both duties between 0 and 100, and at least one of the two is
  zero.
\<close>

theorem set_motor_speed_duties_invariant:
  fixes m :: "int motor"
  assumes "(motor_name, m) \<in> set (set_motor_speeds calls initial_motors)"
  shows "0 \<le> speed_f m \<and> speed_f m \<le> 100 \<and> 0 \<le> speed_r m \<and> speed_r m \<le> 100 \<and>
         (speed_f m = 0 \<or> speed_r m = 0)"
proof -
  have "motors_ok (set_motor_speeds calls (initial_motors :: int motors))"
    by (rule motors_ok_set_motor_speeds [OF motors_ok_initial])
  with assms have "motor_ok m"
    by (auto simp: motors_ok_def list_all_iff)
  then show ?thesis by (simp add: motor_ok_def)
qed

theorem set_motor_speed_duties_invariant_witness:
  "(''FL'', \<lparr>RPWM = 11, LPWM = 13, speed_f = 0, speed_r = 100 :: int\<rparr>)
     \<in> set (set_motor_speeds [(''FL'', 250), (''XX'', 3), (''FR'', - 7), (''FL'', - 300)] initial_motors)
   \<and> speed_f \<lparr>RPWM = 11, LPWM = 13, speed_f = 0, speed_r = 100 :: int\<rparr> = 0
   \<and> speed_r \<lparr>RPWM = 11, LPWM = 13, speed_f = 0, speed_r = 100 :: int\<rparr> \<le> 100"
proof -
  have h: "(''FL'', \<lparr>RPWM = 11, LPWM = 13, speed_f = 0, speed_r = 100 :: int\<rparr>)
     \<in> set (set_motor_speeds [(''FL'', 250), (''XX'', 3), (''FR'', - 7), (''FL'', - 300)] initial_motors)"
    by (simp add: set_motor_speeds_def set_motor_speed_def initial_motors_def)
  show ?thesis
    using h set_motor_speed_duties_invariant [OF h] by simp
qed

subsection \<open>Rounding to a double\<close>

text \<open>
  Some values of \<open>to_double\<close>, to be compared with what Python prints for
  \<^verbatim>\<open>Fraction(1/10)\<close>, \<^verbatim>\<open>Fraction(1/3)\<close>, \<^verbatim>\<open>Fraction(2/3)\<close> and \<^verbatim>\<open>7/10*100\<close>.
\<close>

lemma to_double_examples:
  "to_double (1 / 10) = 3602879701896397 / 36028797018963968"
  "to_double (1 / 3) = 6004799503160661 / 18014398509481984"
  "to_double (2 / 3) = 6004799503160661 / 9007199254740992"
  "to_double (to_double (7 / 10) * 100) = 70"
  "to_double 100 = 100"
  by code_simp+

lemma floor_bounds: "rat_of_int \<lfloor>t\<rfloor> \<le> t" "t < rat_of_int \<lfloor>t\<rfloor> + 1"
  by linarith+

lemma round_half_even_err: "\<bar>rat_of_int (round_half_even t) - t\<bar> \<le> 1 / 2"
proof -
  note f = floor_bounds [of t]
  consider "t - of_int \<lfloor>t\<rfloor> < 1 / 2" | "t - of_int \<lfloor>t\<rfloor> > 1 / 2" | "t - of_int \<lfloor>t\<rfloor> = 1 / 2"
    by linarith
  then show ?thesis
  proof cases
    case 1
    then have "round_half_even t = \<lfloor>t\<rfloor>" by (simp add: round_half_even_def Let_def)
    with 1 f show ?thesis by simp
  next
    case 2
    then have "round_half_even t = \<lfloor>t\<rfloor> + 1" by (simp add: round_half_even_def Let_def)
    with 2 f show ?thesis by simp
  next
    case 3
    then have "round_half_even t = \<lfloor>t\<rfloor> \<or> round_half_even t = \<lfloor>t\<rfloor> + 1"
      by (simp add: round_half_even_def Let_def)
    with 3 show ?thesis by auto
  qed
qed

lemma round_half_even_between:
  "\<lfloor>t\<rfloor> \<le> round_half_even t" "round_half_even t \<le> \<lceil>t\<rceil>"
proof -
  show "\<lfloor>t\<rfloor> \<le> round_half_even t"
    by (simp add: round_half_even_def Let_def)
  have "t = of_int \<lfloor>t\<rfloor> \<Longrightarrow> round_half_even t = \<lfloor>t\<rfloor>"
    by (simp add: round_half_even_def Let_def)
  moreover have "round_half_even t \<le> \<lfloor>t\<rfloor> + 1"
    by (simp add: round_half_even_def Let_def)
  moreover have "t \<noteq> of_int \<lfloor>t\<rfloor> \<Longrightarrow> \<lceil>t\<rceil> = \<lfloor>t\<rfloor> + 1"
    by (metis ceiling_altdef)
  moreover have "\<lfloor>t\<rfloor> \<le> \<lceil>t\<rceil>"
    by (simp add: floor_le_ceiling)
  ultimately show "round_half_even t \<le> \<lceil>t\<rceil>"
    by (cases "t = of_int \<lfloor>t\<rfloor>") simp_all
qed

lemma round_half_even_le: "t \<le> of_int n \<Longrightarrow> round_half_even t \<le> n"
  using round_half_even_between(2) [of t] by (meson ceiling_le_iff order_trans)

lemma round_half_even_ge: "of_int n \<le> t \<Longrightarrow> n \<le> round_half_even t"
  using round_half_even_between(1) [of t] by (meson le_floor_iff order_trans)


lemma binary_exponent_le:
  assumes "x \<noteq> 0"
  shows "2 powi (binary_exponent x) \<le> \<bar>x\<bar>"
proof -
  obtain p q where pq: "quotient_of \<bar>x\<bar> = (p, q)"
    by (cases "quotient_of \<bar>x\<bar>")
  have q: "0 < q" using pq by (rule quotient_of_denom_pos)
  have x: "\<bar>x\<bar> = of_int p / of_int q" using pq by (rule quotient_of_div)
  have p: "0 < p"
  proof -
    have "0 < \<bar>x\<bar>" using assms by simp
    then have "0 < rat_of_int p / rat_of_int q" by (simp add: x [symmetric])
    with q show ?thesis by (simp add: zero_less_divide_iff)
  qed
  define e0 where "e0 = bitlen p - bitlen q"
  have e: "binary_exponent x = (if 2 powi e0 \<le> \<bar>x\<bar> then e0 else e0 - 1)"
    by (simp add: binary_exponent_def pq e0_def Let_def)
  show ?thesis
  proof (cases "2 powi e0 \<le> \<bar>x\<bar>")
    case True
    then show ?thesis by (simp add: e)
  next
    case False
    have bp: "1 \<le> bitlen p" and bq: "1 \<le> bitlen q"
      using p q bitlen_eq_zero_iff [of p] bitlen_eq_zero_iff [of q] bitlen_nonneg [of p] bitlen_nonneg [of q]
      by linarith+
    have lp: "(2::int) ^ nat (bitlen p - 1) \<le> p"
      using bitlen_bounds [OF p] by simp
    have uq: "q < (2::int) ^ nat (bitlen q)"
      using bitlen_bounds [OF q] by simp
    have lp': "(2::rat) powi (bitlen p - 1) \<le> of_int p"
    proof -
      have "rat_of_int (2 ^ nat (bitlen p - 1)) \<le> of_int p"
        using lp by (simp only: of_int_le_iff)
      then show ?thesis using bp by (simp add: power_int_nonneg_exp)
    qed
    have uq': "of_int q \<le> (2::rat) powi (bitlen q)"
    proof -
      have "q \<le> 2 ^ nat (bitlen q)"
        using uq by simp
      then have "rat_of_int q \<le> of_int (2 ^ nat (bitlen q))"
        by (simp only: of_int_le_iff)
      then show ?thesis using bq by (simp add: power_int_nonneg_exp)
    qed
    have "(2::rat) powi (e0 - 1) = 2 powi (bitlen p - 1) / 2 powi (bitlen q)"
      by (simp add: e0_def power_int_diff)
    also have "\<dots> \<le> of_int p / 2 powi (bitlen q)"
      using lp' by (simp add: divide_right_mono)
    also have "\<dots> \<le> of_int p / of_int q"
      using uq' p q by (simp add: divide_left_mono)
    finally show ?thesis using False by (simp add: e x)
  qed
qed

lemma binary_exponent_bound:
  assumes "x \<noteq> 0" "\<bar>x\<bar> \<le> 2 powi E"
  shows "binary_exponent x \<le> E"
proof -
  have "(2::rat) powi (binary_exponent x) \<le> 2 powi E"
    using binary_exponent_le [OF assms(1)] assms(2) by (rule order_trans)
  show ?thesis
  proof (rule ccontr)
    assume "\<not> binary_exponent x \<le> E"
    then have "E < binary_exponent x" by simp
    then have "(2::rat) powi E < 2 powi (binary_exponent x)"
      by (rule power_int_strict_increasing) simp
    with \<open>(2::rat) powi (binary_exponent x) \<le> 2 powi E\<close> show False by simp
  qed
qed


lemma to_double_unfold:
  assumes "x \<noteq> 0"
  obtains e where "e = max (binary_exponent x) (- 1022)"
    and "to_double x = of_int (round_half_even (x / 2 powi (e - 52))) * 2 powi (e - 52)"
  using assms by (simp add: to_double_def Let_def)

lemma to_double_err:
  assumes "\<bar>x\<bar> \<le> 2 powi E" and "- 1022 \<le> E"
  shows "\<bar>to_double x - x\<bar> \<le> 2 powi (E - 53)"
proof (cases "x = 0")
  case True
  then show ?thesis by (simp add: to_double_def)
next
  case False
  then obtain e where e: "e = max (binary_exponent x) (- 1022)"
    and t: "to_double x = of_int (round_half_even (x / 2 powi (e - 52))) * 2 powi (e - 52)"
    by (rule to_double_unfold)
  define ulp :: rat where "ulp = 2 powi (e - 52)"
  have up: "0 < ulp" by (simp add: ulp_def)
  have "e \<le> E"
    using binary_exponent_bound [OF False assms(1)] assms(2) by (simp add: e)
  then have ul: "ulp \<le> 2 powi (E - 52)"
    unfolding ulp_def by (intro power_int_increasing) simp_all
  have "to_double x - x = (of_int (round_half_even (x / ulp)) - x / ulp) * ulp"
    using up by (simp add: t ulp_def [symmetric] algebra_simps)
  then have "\<bar>to_double x - x\<bar> = \<bar>of_int (round_half_even (x / ulp)) - x / ulp\<bar> * ulp"
    using up by (simp add: abs_mult)
  also have "\<dots> \<le> (1 / 2) * ulp"
    using round_half_even_err [of "x / ulp"] up by (intro mult_right_mono) simp_all
  also have "\<dots> \<le> (1 / 2) * 2 powi (E - 52)"
    using ul by simp
  also have "\<dots> = 2 powi (E - 53)"
    by (simp add: power_int_diff)
  finally show ?thesis .
qed

lemma to_double_bound:
  assumes "\<bar>x\<bar> \<le> of_int N * 2 powi (E - 52)" and "\<bar>x\<bar> \<le> 2 powi E" and "- 1022 \<le> E"
  shows "\<bar>to_double x\<bar> \<le> of_int N * 2 powi (E - 52)"
proof (cases "x = 0")
  case True
  with assms(1) show ?thesis by (simp add: to_double_def)
next
  case False
  then obtain e where e: "e = max (binary_exponent x) (- 1022)"
    and t: "to_double x = of_int (round_half_even (x / 2 powi (e - 52))) * 2 powi (e - 52)"
    by (rule to_double_unfold)
  define ulp :: rat where "ulp = 2 powi (e - 52)"
  have up: "0 < ulp" by (simp add: ulp_def)
  have eE: "e \<le> E"
    using binary_exponent_bound [OF False assms(2)] assms(3) by (simp add: e)
  define M where "M = N * 2 ^ nat (E - e)"
  have "(2::rat) powi (E - 52) = 2 powi (E - e) * 2 powi (e - 52)"
    by (simp flip: power_int_add)
  also have "(2::rat) powi (E - e) = 2 ^ nat (E - e)"
    using eE by (simp add: power_int_nonneg_exp)
  finally have B: "of_int N * 2 powi (E - 52) = of_int M * ulp"
    by (simp add: M_def ulp_def)
  have ax: "\<bar>x\<bar> \<le> of_int M * ulp"
    using assms(1) by (simp only: B)
  have "x / ulp \<le> of_int M"
    using ax up by (simp add: pos_divide_le_eq abs_le_iff)
  then have le: "round_half_even (x / ulp) \<le> M"
    by (rule round_half_even_le)
  have "of_int (- M) \<le> x / ulp"
    using ax up by (simp add: pos_le_divide_eq abs_le_iff)
  then have ge: "- M \<le> round_half_even (x / ulp)"
    by (rule round_half_even_ge)
  from le ge have "\<bar>round_half_even (x / ulp)\<bar> \<le> M"
    by simp
  then have "\<bar>rat_of_int (round_half_even (x / ulp))\<bar> \<le> of_int M"
    by (metis of_int_abs of_int_le_iff)
  then have "\<bar>rat_of_int (round_half_even (x / ulp))\<bar> * ulp \<le> of_int M * ulp"
    using up by (intro mult_right_mono) simp_all
  then show ?thesis
    using up by (simp add: t ulp_def [symmetric] abs_mult B)
qed

lemma scaled_wheel_double:
  fixes v m :: int
  assumes "\<bar>v\<bar> \<le> m" and "100 < m"
  defines "s \<equiv> to_double (to_double (of_int v / of_int m) * 100)"
  shows "\<bar>s\<bar> \<le> 100" and "\<bar>s - 100 * of_int v / of_int m\<bar> \<le> 1 / 2 ^ 45"
proof -
  define q :: rat where "q = of_int v / of_int m"
  define rq where "rq = to_double q"
  have mp: "0 < rat_of_int m" using assms(2) by simp
  have "\<bar>rat_of_int v\<bar> \<le> of_int m"
    using assms(1) by (metis of_int_abs of_int_le_iff)
  then have q1: "\<bar>q\<bar> \<le> 1"
    using mp by (simp add: q_def pos_divide_le_eq)
  have rq1: "\<bar>rq\<bar> \<le> 1"
    using to_double_bound [of q "2 ^ 52" 0] q1 by (simp add: rq_def)
  have rqe: "\<bar>rq - q\<bar> \<le> 1 / 2 ^ 53"
    using to_double_err [of q 0] q1 by (simp add: rq_def)
  have y: "\<bar>rq * 100\<bar> \<le> 100"
    using rq1 by (simp add: abs_mult)
  have s: "s = to_double (rq * 100)"
    by (simp add: s_def rq_def q_def)
  show "\<bar>s\<bar> \<le> 100"
    using to_double_bound [of "rq * 100" "100 * 2 ^ 45" 7] y by (simp add: s)
  have se: "\<bar>s - rq * 100\<bar> \<le> 1 / 2 ^ 46"
    using to_double_err [of "rq * 100" 7] y by (simp add: s)
  have "s - 100 * of_int v / of_int m = (s - rq * 100) + 100 * (rq - q)"
    by (simp add: q_def algebra_simps)
  then have "\<bar>s - 100 * of_int v / of_int m\<bar> \<le> \<bar>s - rq * 100\<bar> + \<bar>100 * (rq - q)\<bar>"
    by (simp only: abs_triangle_ineq)
  also have "\<bar>100 * (rq - q)\<bar> = 100 * \<bar>rq - q\<bar>"
    by (simp only: abs_mult abs_numeral)
  finally have "\<bar>s - 100 * of_int v / of_int m\<bar> \<le> \<bar>s - rq * 100\<bar> + 100 * \<bar>rq - q\<bar>" .
  also have "\<dots> \<le> 1 / 2 ^ 46 + 100 * (1 / 2 ^ 53)"
    using se rqe by (intro add_mono mult_left_mono) simp_all
  also have "\<dots> \<le> 1 / 2 ^ 45"
    by simp
  finally show "\<bar>s - 100 * of_int v / of_int m\<bar> \<le> 1 / 2 ^ 45" .
qed

lemma binary_exponent_less:
  assumes "x \<noteq> 0"
  shows "\<bar>x\<bar> < 2 powi (binary_exponent x + 1)"
proof -
  obtain p q where pq: "quotient_of \<bar>x\<bar> = (p, q)"
    by (cases "quotient_of \<bar>x\<bar>")
  have q: "0 < q" using pq by (rule quotient_of_denom_pos)
  have x: "\<bar>x\<bar> = of_int p / of_int q" using pq by (rule quotient_of_div)
  have p: "0 < p"
  proof -
    have "0 < \<bar>x\<bar>" using assms by simp
    then have "0 < rat_of_int p / rat_of_int q" by (simp add: x [symmetric])
    with q show ?thesis by (simp add: zero_less_divide_iff)
  qed
  define e0 where "e0 = bitlen p - bitlen q"
  have e: "binary_exponent x = (if 2 powi e0 \<le> \<bar>x\<bar> then e0 else e0 - 1)"
    by (simp add: binary_exponent_def pq e0_def Let_def)
  show ?thesis
  proof (cases "2 powi e0 \<le> \<bar>x\<bar>")
    case False
    then show ?thesis by (simp add: e)
  next
    case True
    have bp: "1 \<le> bitlen p" and bq: "1 \<le> bitlen q"
      using p q bitlen_eq_zero_iff [of p] bitlen_eq_zero_iff [of q] bitlen_nonneg [of p] bitlen_nonneg [of q]
      by linarith+
    have up: "p < (2::int) ^ nat (bitlen p)"
      using bitlen_bounds [OF p] by simp
    have lq: "(2::int) ^ nat (bitlen q - 1) \<le> q"
      using bitlen_bounds [OF q] by simp
    have up': "of_int p < (2::rat) powi (bitlen p)"
    proof -
      have "rat_of_int p < of_int (2 ^ nat (bitlen p))"
        using up by (simp only: of_int_less_iff)
      then show ?thesis using bp by (simp add: power_int_nonneg_exp)
    qed
    have lq': "(2::rat) powi (bitlen q - 1) \<le> of_int q"
    proof -
      have "rat_of_int (2 ^ nat (bitlen q - 1)) \<le> of_int q"
        using lq by (simp only: of_int_le_iff)
      then show ?thesis using bq by (simp add: power_int_nonneg_exp)
    qed
    have "rat_of_int p / of_int q < 2 powi (bitlen p) / of_int q"
      using up' q by (simp add: divide_strict_right_mono)
    also have "\<dots> \<le> 2 powi (bitlen p) / 2 powi (bitlen q - 1)"
      using lq' q by (intro divide_left_mono mult_pos_pos) simp_all
    also have "\<dots> = 2 powi (bitlen p - (bitlen q - 1))"
      by (rule power_int_diff [symmetric]) simp
    also have "bitlen p - (bitlen q - 1) = e0 + 1"
      by (simp add: e0_def)
    finally show ?thesis using True by (simp add: e x)
  qed
qed

subsection \<open>The velocity form scales up to rounding\<close>

lemma clamp_id:
  fixes x :: "'a::linordered_idom"
  shows "\<bar>x\<bar> \<le> 100 \<Longrightarrow> max (- 100) (min 100 x) = x"
  by (simp add: max_def min_def abs_le_iff)

lemma maxfacts:
  fixes a b c d :: "'a::linorder"
  shows "a \<le> max (max (max a b) c) d" "b \<le> max (max (max a b) c) d"
   "c \<le> max (max (max a b) c) d" "d \<le> max (max (max a b) c) d"
  by (simp_all add: le_max_iff_disj)

lemma wheel_set_omni:
  assumes ow: "omni_wheels vx vy omega = (a, b, c, d)"
    and b: "\<bar>a\<bar> \<le> 100" "\<bar>b\<bar> \<le> 100" "\<bar>c\<bar> \<le> 100" "\<bar>d\<bar> \<le> 100"
  shows "wheel (set_omni_movement vx vy omega initial_motors) ''FL'' = Some a"
    "wheel (set_omni_movement vx vy omega initial_motors) ''FR'' = Some b"
    "wheel (set_omni_movement vx vy omega initial_motors) ''BL'' = Some c"
    "wheel (set_omni_movement vx vy omega initial_motors) ''BR'' = Some d"
  using b by (simp_all add: set_omni_movement_def ow wheel_set_four_initial clamp_id)

text \<open>One wheel value as the code leaves it, for the maximum \<open>m\<close> of the four magnitudes.\<close>

lemma one_wheel:
  fixes v m :: int
  assumes "\<bar>v\<bar> \<le> m"
  defines "s \<equiv> (if m > 100 then to_double (to_double (of_int v / of_int m) * 100) else of_int v)"
  shows "\<bar>s\<bar> \<le> 100"
    and "\<bar>s - (if m > 100 then 100 / of_int m else 1) * of_int v\<bar> \<le> 1 / 2 ^ 45"
proof -
  show "\<bar>s\<bar> \<le> 100"
  proof (cases "m > 100")
    case True
    then show ?thesis using scaled_wheel_double(1) [OF assms(1) True] by (simp add: s_def)
  next
    case False
    with assms(1) have "\<bar>v\<bar> \<le> 100" by simp
    then have "\<bar>rat_of_int v\<bar> \<le> of_int 100" by (metis of_int_abs of_int_le_iff)
    with False show ?thesis by (simp add: s_def)
  qed
  show "\<bar>s - (if m > 100 then 100 / of_int m else 1) * of_int v\<bar> \<le> 1 / 2 ^ 45"
  proof (cases "m > 100")
    case True
    then show ?thesis using scaled_wheel_double(2) [OF assms(1) True] by (simp add: s_def)
  next
    case False
    then show ?thesis by (simp add: s_def)
  qed
qed

lemma omni_wheels_cases:
  assumes d: "fl = vx - vy - omega" "fr = vx + vy + omega" "bl = vx + vy - omega" "br = vx - vy + omega"
    "m = max (max (max \<bar>fl\<bar> \<bar>fr\<bar>) \<bar>bl\<bar>) \<bar>br\<bar>"
  shows "omni_wheels vx vy omega =
    (if m > 100
     then (to_double (to_double (of_int fl / of_int m) * 100),
           to_double (to_double (of_int fr / of_int m) * 100),
           to_double (to_double (of_int bl / of_int m) * 100),
           to_double (to_double (of_int br / of_int m) * 100))
     else (of_int fl, of_int fr, of_int bl, of_int br))"
  by (simp only: omni_wheels_def Let_def d)

lemma omni_int_all:
  assumes d: "fl = vx - vy - omega" "fr = vx + vy + omega" "bl = vx + vy - omega" "br = vx - vy + omega"
    "m = max (max (max \<bar>fl\<bar> \<bar>fr\<bar>) \<bar>bl\<bar>) \<bar>br\<bar>"
    and k: "k = (if m > 100 then 100 / of_int m else 1)"
    and ms: "ms = set_omni_movement vx vy omega initial_motors"
    and ow: "omni_wheels vx vy omega = (a, b, c, d)"
  shows "(m \<le> 100 \<longrightarrow>
               a = of_int fl \<and> b = of_int fr \<and> c = of_int bl \<and> d = of_int br) \<and>
            (m > 100 \<longrightarrow>
               a = to_double (to_double (of_int fl / of_int m) * 100) \<and>
               b = to_double (to_double (of_int fr / of_int m) * 100) \<and>
               c = to_double (to_double (of_int bl / of_int m) * 100) \<and>
               d = to_double (to_double (of_int br / of_int m) * 100)) \<and>
            \<bar>a\<bar> \<le> 100 \<and> \<bar>b\<bar> \<le> 100 \<and> \<bar>c\<bar> \<le> 100 \<and> \<bar>d\<bar> \<le> 100 \<and>
            \<bar>a - k * of_int fl\<bar> \<le> 1 / 2 ^ 45 \<and> \<bar>b - k * of_int fr\<bar> \<le> 1 / 2 ^ 45 \<and>
            \<bar>c - k * of_int bl\<bar> \<le> 1 / 2 ^ 45 \<and> \<bar>d - k * of_int br\<bar> \<le> 1 / 2 ^ 45 \<and>
            wheel ms ''FL'' = Some a \<and> wheel ms ''FR'' = Some b \<and>
            wheel ms ''BL'' = Some c \<and> wheel ms ''BR'' = Some d"
proof -
  define sc :: "int \<Rightarrow> rat"
    where "sc v = (if m > 100 then to_double (to_double (of_int v / of_int m) * 100) else of_int v)" for v
  have "omni_wheels vx vy omega = (sc fl, sc fr, sc bl, sc br)"
    unfolding omni_wheels_cases [OF d] sc_def by (cases "m > 100") (simp_all only: if_True if_False)
  with ow have v: "a = sc fl" "b = sc fr" "c = sc bl" "d = sc br"
    by simp_all
  have le: "\<bar>fl\<bar> \<le> m" "\<bar>fr\<bar> \<le> m" "\<bar>bl\<bar> \<le> m" "\<bar>br\<bar> \<le> m"
    unfolding d(5) by (rule maxfacts)+
  have bd: "\<bar>a\<bar> \<le> 100" "\<bar>b\<bar> \<le> 100" "\<bar>c\<bar> \<le> 100" "\<bar>d\<bar> \<le> 100"
    unfolding v sc_def by (rule one_wheel(1) [OF le(1)] one_wheel(1) [OF le(2)]
        one_wheel(1) [OF le(3)] one_wheel(1) [OF le(4)])+
  have er: "\<bar>a - k * of_int fl\<bar> \<le> 1 / 2 ^ 45" "\<bar>b - k * of_int fr\<bar> \<le> 1 / 2 ^ 45"
    "\<bar>c - k * of_int bl\<bar> \<le> 1 / 2 ^ 45" "\<bar>d - k * of_int br\<bar> \<le> 1 / 2 ^ 45"
    unfolding v sc_def k by (rule one_wheel(2) [OF le(1)] one_wheel(2) [OF le(2)]
        one_wheel(2) [OF le(3)] one_wheel(2) [OF le(4)])+
  note w = wheel_set_omni [OF ow bd, folded ms]
  have lo: "m \<le> 100 \<longrightarrow> a = of_int fl \<and> b = of_int fr \<and> c = of_int bl \<and> d = of_int br"
    unfolding v sc_def by (cases "m > 100") (simp_all only: if_True if_False, simp_all)
  have hi: "m > 100 \<longrightarrow>
               a = to_double (to_double (of_int fl / of_int m) * 100) \<and>
               b = to_double (to_double (of_int fr / of_int m) * 100) \<and>
               c = to_double (to_double (of_int bl / of_int m) * 100) \<and>
               d = to_double (to_double (of_int br / of_int m) * 100)"
    unfolding v sc_def by (cases "m > 100") (simp_all only: if_True if_False, simp_all)
  from lo hi bd er w show ?thesis
    by blast
qed

text \<open>
  Claim C5, amended. For all integers \<open>vx\<close>, \<open>vy\<close>, \<open>omega\<close> the code computes
  \<open>FL = vx - vy - omega\<close>, \<open>FR = vx + vy + omega\<close>, \<open>BL = vx + vy - omega\<close> and
  \<open>BR = vx - vy + omega\<close>. When the largest magnitude is at most 100 the four values are
  kept as they are. When it exceeds 100 each value \<open>v\<close> becomes the double
  \<^verbatim>\<open>(v / max_val) * 100\<close> of floating-point arithmetic, the same operation for all four. In
  both cases every value lies in \<open>[-100, 100]\<close>, differs from \<open>k\<close> times the unscaled value
  by at most \<open>1 / 2 ^ 45\<close>, where \<open>k\<close> is \<open>100 / max\<close> or 1, and is the signed speed its wheel ends up
  with: \<^verbatim>\<open>set_motor_speed\<close> clips none of them.
\<close>

theorem set_omni_movement_scaled_in_doubles:
  assumes ow: "omni_wheels vx vy omega = (a, b, c, d)"
  shows "let fl = vx - vy - omega; fr = vx + vy + omega; bl = vx + vy - omega; br = vx - vy + omega;
             max_val = max (max (max \<bar>fl\<bar> \<bar>fr\<bar>) \<bar>bl\<bar>) \<bar>br\<bar>;
             k = (if max_val > 100 then 100 / of_int max_val else 1);
             ms = set_omni_movement vx vy omega initial_motors
         in (max_val \<le> 100 \<longrightarrow>
               a = of_int fl \<and> b = of_int fr \<and> c = of_int bl \<and> d = of_int br) \<and>
            (max_val > 100 \<longrightarrow>
               a = to_double (to_double (of_int fl / of_int max_val) * 100) \<and>
               b = to_double (to_double (of_int fr / of_int max_val) * 100) \<and>
               c = to_double (to_double (of_int bl / of_int max_val) * 100) \<and>
               d = to_double (to_double (of_int br / of_int max_val) * 100)) \<and>
            \<bar>a\<bar> \<le> 100 \<and> \<bar>b\<bar> \<le> 100 \<and> \<bar>c\<bar> \<le> 100 \<and> \<bar>d\<bar> \<le> 100 \<and>
            \<bar>a - k * of_int fl\<bar> \<le> 1 / 2 ^ 45 \<and> \<bar>b - k * of_int fr\<bar> \<le> 1 / 2 ^ 45 \<and>
            \<bar>c - k * of_int bl\<bar> \<le> 1 / 2 ^ 45 \<and> \<bar>d - k * of_int br\<bar> \<le> 1 / 2 ^ 45 \<and>
            wheel ms ''FL'' = Some a \<and> wheel ms ''FR'' = Some b \<and>
            wheel ms ''BL'' = Some c \<and> wheel ms ''BR'' = Some d"
  unfolding Let_def by (rule omni_int_all [OF refl refl refl refl refl refl refl ow])

text \<open>The four values at \<open>(100, 100, 100)\<close>, where the maximum is 300, and at \<open>(10, 20, 30)\<close>.\<close>

lemma omni_100: "omni_wheels 100 100 100 =
    (- 2345624805922133 / 70368744177664, 100, 2345624805922133 / 70368744177664,
     2345624805922133 / 70368744177664)"
  by code_simp

lemma omni_small: "omni_wheels 10 20 30 = (- 40, 60, 0, 20)"
  by code_simp

theorem set_omni_movement_scaled_in_doubles_witness:
  "omni_wheels 100 100 100 =
     (- 2345624805922133 / 70368744177664, 100, 2345624805922133 / 70368744177664,
      2345624805922133 / 70368744177664) \<and>
   \<bar>- 2345624805922133 / 70368744177664 - 100 / 300 * (- 100 :: rat)\<bar> \<le> 1 / 2 ^ 45 \<and>
   wheel (set_omni_movement 100 100 100 initial_motors) ''FL''
     = Some (- 2345624805922133 / 70368744177664) \<and>
   omni_wheels 10 20 30 = (- 40, 60, 0, 20) \<and>
   wheel (set_omni_movement 10 20 30 initial_motors) ''FL'' = Some (- 40) \<and>
   wheel (set_omni_movement 10 20 30 initial_motors) ''BR'' = Some 20"
proof -
  note t1 = set_omni_movement_scaled_in_doubles [OF omni_100, unfolded Let_def]
  note t2 = set_omni_movement_scaled_in_doubles [OF omni_small, unfolded Let_def]
  have "wheel (set_omni_movement 100 100 100 initial_motors) ''FL''
     = Some (- 2345624805922133 / 70368744177664)"
    using t1 by blast
  moreover have "wheel (set_omni_movement 10 20 30 initial_motors) ''FL'' = Some (- 40)"
    "wheel (set_omni_movement 10 20 30 initial_motors) ''BR'' = Some 20"
    using t2 by blast+
  ultimately show ?thesis
    using omni_100 omni_small by simp
qed

text \<open>
  Claim C5 as stated fails. At \<open>(100, 100, 100)\<close> the unscaled values are
  \<open>(-100, 300, 100, 100)\<close> and the factor would be \<open>100 / 300\<close>. The code leaves
  \<open>FL = -2345624805922133 / 2 ^ 46\<close>, the double printed as \<^verbatim>\<open>-33.33333333333333\<close>, and
  \<open>FR = 100\<close>: the four values are not the unscaled ones times \<open>100 / 300\<close>, and the ratio
  of \<open>FL\<close> to \<open>FR\<close> is not that of \<open>-100\<close> to \<open>300\<close>.
\<close>

theorem set_omni_movement_ratio_not_exact:
  "omni_wheels 100 100 100 \<noteq>
     (100 / 300 * (- 100), 100 / 300 * 300, 100 / 300 * 100, 100 / 300 * 100) \<and>
   fst (omni_wheels 100 100 100) * 300 \<noteq> fst (snd (omni_wheels 100 100 100)) * (- 100) \<and>
   fst (omni_wheels 100 100 100) = - 2345624805922133 / 2 ^ 46 \<and>
   fst (snd (omni_wheels 100 100 100)) = 100"
  unfolding omni_100 by simp

section \<open>Properties of the safety supervisor\<close>

subsection \<open>The speed cap\<close>

text \<open>
  Claim C4. For every requested integer speed \<open>s\<close>, also above 100 or below 0, the
  speed that \<^verbatim>\<open>set_speed_limit\<close> returns and stores as \<^verbatim>\<open>current_speed\<close> is at least 0 and at
  most \<^verbatim>\<open>max_safe_speed\<close>, for any cap that is not negative (the constructor sets 70 and
  nothing changes it).
\<close>

theorem set_speed_limit_bounds:
  assumes "0 \<le> max_safe_speed c"
  shows "0 \<le> fst (set_speed_limit s c) \<and> fst (set_speed_limit s c) \<le> max_safe_speed c \<and>
         current_speed (snd (set_speed_limit s c)) = fst (set_speed_limit s c) \<and>
         max_safe_speed (snd (set_speed_limit s c)) = max_safe_speed c"
  using assms by (simp add: set_speed_limit_def Let_def)

theorem set_speed_limit_bounds_witness:
  "0 \<le> max_safe_speed initial_controller \<and> max_safe_speed initial_controller = 70 \<and>
   fst (set_speed_limit 250 initial_controller) = 70 \<and>
   fst (set_speed_limit (- 5) initial_controller) = 0 \<and>
   current_speed (snd (set_speed_limit 250 initial_controller)) = 70"
proof -
  have h: "0 \<le> max_safe_speed initial_controller"
    by (simp add: initial_controller_def)
  show ?thesis
    using h set_speed_limit_bounds [OF h, of 250] set_speed_limit_bounds [OF h, of "- 5"]
    by (simp add: set_speed_limit_def initial_controller_def)
qed

subsection \<open>Stopping twice\<close>

lemma end_movement_free:
  "\<not> safety_lock c \<Longrightarrow> end_movement now c = Returned ()
     ((if is_moving c then record_history now c else c)
        \<lparr>is_moving := False, current_action := ''stopped'', movement_start_time := None\<rparr>)"
  by (simp add: end_movement_def)

lemma safety_lock_record_history [simp]: "safety_lock (record_history now c) = safety_lock c"
  by (simp add: record_history_def Let_def)

lemma motors_record_history [simp]: "motors (record_history now c) = motors c"
  by (simp add: record_history_def Let_def)

lemma threads_record_history [simp]: "threads (record_history now c) = threads c"
  by (simp add: record_history_def Let_def)


lemma start_movement_free:
  "\<not> safety_lock c \<Longrightarrow> \<not> emergency_stop_active c \<Longrightarrow>
   start_movement now a c = Returned True
        (c\<lparr>is_moving := True,
           current_action := a,
           movement_start_time := Some now,
           total_movements := total_movements c + 1,
           threads := threads c @ [(now + of_int (movement_timeout c), Movement_timeout_check)]\<rparr>)"
  by (simp add: start_movement_def)

lemma moving_forward_state:
  "voice_move_forward 0 None None initial_controller =
     Returned (''Moving forward'' @ '' at '' @ str_int 50 @ ''% speed'')
       (initial_controller\<lparr>is_moving := True, current_action := ''moving forward'',
          movement_start_time := Some 0, total_movements := 1,
          threads := [(10, Movement_timeout_check)],
          motors := move_forward 50 initial_motors\<rparr>)"
  by (simp add: voice_move_forward_def voice_move_def start_movement_def set_speed_limit_def
      py_or_def truthy_def initial_controller_def)




subsection \<open>A requested speed of zero\<close>

lemma py_or_zero: "py_or (Some 0) x = py_or None x"
  by (simp add: py_or_def)

lemma voice_move_zero:
  "voice_move a g w now (Some 0) d c = voice_move a g w now None d c"
  unfolding voice_move_def py_or_zero by (rule refl)

lemma voice_move_admitted:
  assumes "\<not> safety_lock c" "\<not> emergency_stop_active c"
  shows "motors (state_of (voice_move a g w now None d c)) =
           g (max 0 (min (max_safe_speed c) (current_speed c))) (motors c)"
    and "current_speed (state_of (voice_move a g w now None d c)) =
           max 0 (min (max_safe_speed c) (current_speed c))"
  using assms
  by (simp_all add: voice_move_def start_movement_def set_speed_limit_def py_or_def Let_def
      split: option.splits)

text \<open>
  Claim C10. For every voice command that takes a speed, a requested speed of exactly 0
  is treated as no requested speed: the call with \<open>Some 0\<close> is the call with \<open>None\<close>.
  An admitted directional command then drives the wheels at the current speed of the
  controller (capped by \<^verbatim>\<open>set_speed_limit\<close>), not at 0; the spin takes the current speed
  less 10 in both cases.
\<close>

theorem voice_speed_zero_is_default:
  "voice_move_forward now (Some 0) d c = voice_move_forward now None d c \<and>
   voice_move_backward now (Some 0) d c = voice_move_backward now None d c \<and>
   voice_turn_left now (Some 0) d c = voice_turn_left now None d c \<and>
   voice_turn_right now (Some 0) d c = voice_turn_right now None d c \<and>
   voice_strafe_left now (Some 0) d c = voice_strafe_left now None d c \<and>
   voice_strafe_right now (Some 0) d c = voice_strafe_right now None d c \<and>
   voice_spin_around now (Some 0) d c = voice_spin_around now None d c \<and>
   (\<not> safety_lock c \<and> \<not> emergency_stop_active c \<longrightarrow>
      (let e = max 0 (min (max_safe_speed c) (current_speed c)) in
       motors (state_of (voice_move_forward now (Some 0) d c)) = move_forward e (motors c) \<and>
       current_speed (state_of (voice_move_forward now (Some 0) d c)) = e \<and>
       motors (state_of (voice_move_backward now (Some 0) d c)) = move_backward e (motors c) \<and>
       motors (state_of (voice_turn_left now (Some 0) d c)) = turn_left e (motors c) \<and>
       current_speed (state_of (voice_turn_left now (Some 0) d c)) = e \<and>
       motors (state_of (voice_turn_right now (Some 0) d c)) = turn_right e (motors c) \<and>
       motors (state_of (voice_strafe_left now (Some 0) d c)) = strafe_left e (motors c) \<and>
       motors (state_of (voice_strafe_right now (Some 0) d c)) = strafe_right e (motors c)))"
  unfolding voice_move_forward_def voice_move_backward_def voice_turn_left_def voice_turn_right_def
    voice_strafe_left_def voice_strafe_right_def Let_def
  unfolding voice_move_zero voice_spin_around_def py_or_zero
  by (simp add: voice_move_admitted)

theorem voice_speed_zero_is_default_witness:
  "\<not> safety_lock initial_controller \<and> \<not> emergency_stop_active initial_controller \<and>
   current_speed initial_controller = 50 \<and>
   wheel (motors (state_of (voice_move_forward 0 (Some 0) None initial_controller))) ''FL'' = Some 50 \<and>
   wheel (motors (state_of (voice_move_forward 0 (Some 0) None initial_controller))) ''BR'' = Some 50 \<and>
   wheel (motors (state_of (voice_turn_left 0 (Some 0) None initial_controller))) ''FL'' = Some (- 50) \<and>
   wheel (motors (state_of (voice_turn_left 0 (Some 0) None initial_controller))) ''FR'' = Some 50 \<and>
   current_speed (state_of (voice_move_forward 0 (Some 0) None initial_controller)) = 50"
proof -
  have h: "\<not> safety_lock initial_controller \<and> \<not> emergency_stop_active initial_controller"
    by (simp add: initial_controller_def)
  have v: "max_safe_speed initial_controller = 70" "current_speed initial_controller = 50"
    "motors initial_controller = initial_motors"
    by (simp_all add: initial_controller_def)
  note t = voice_speed_zero_is_default [of 0 None initial_controller,
      THEN conjunct2, THEN conjunct2, THEN conjunct2, THEN conjunct2, THEN conjunct2,
      THEN conjunct2, THEN conjunct2, THEN mp, OF h]
  show ?thesis
    using h t
    by (simp add: v Let_def move_forward_def turn_left_def wheel_set_four_initial)
qed

subsection \<open>Emergency stop\<close>

text \<open>
  \<^verbatim>\<open>emergency_stop\<close> never returns: it holds \<^verbatim>\<open>safety_lock\<close> when it calls
  \<^verbatim>\<open>_end_movement\<close>, which waits for the same lock. The flag is set and the wheels are
  stopped by then; \<^verbatim>\<open>is_moving\<close> is not reset, the clearing thread is not started and
  the lock stays held.
\<close>

lemma emergency_stop_blocks:
  "emergency_stop now c =
     Blocked (if safety_lock c then c
              else c\<lparr>safety_lock := True, emergency_stop_active := True, motors := stop_all (motors c)\<rparr>)"
  by (simp add: emergency_stop_def end_movement_def Let_def)

lemma start_movement_held: "safety_lock c \<Longrightarrow> start_movement now a c = Blocked c"
  by (simp add: start_movement_def)

lemma start_movement_rejected:
  "\<not> safety_lock c \<Longrightarrow> emergency_stop_active c \<Longrightarrow> start_movement now a c = Returned False c"
  by (simp add: start_movement_def)

text \<open>
  Claim C2, as the code runs it. A forward movement is started on a fresh controller and
  \<^verbatim>\<open>emergency_stop\<close> is called one second later. The call does not return (so no message
  is returned). In the state it leaves, the wheels are stopped and the emergency flag is
  set, but \<^verbatim>\<open>is_moving\<close> is still true, no clearing thread has been started, and
  \<^verbatim>\<open>safety_lock\<close> is held: a later \<^verbatim>\<open>_start_movement\<close> does not return \<^verbatim>\<open>False\<close> but waits
  for the lock, and so does \<^verbatim>\<open>stop_all_safe\<close>.
\<close>

theorem emergency_stop_while_moving_blocks:
  "(let c = state_of (voice_move_forward 0 None None initial_controller);
        r = emergency_stop 1 c
    in is_moving c \<and> \<not> safety_lock c \<and>
       \<not> returns r \<and>
       is_moving (state_of r) \<and> emergency_stop_active (state_of r) \<and> safety_lock (state_of r) \<and>
       duties (motors (state_of r)) ''FL'' = Some (0, 0) \<and>
       threads (state_of r) = threads c \<and>
       \<not> returns (start_movement 2 ''moving forward'' (state_of r)) \<and>
       \<not> returns (stop_all_safe 2 (state_of r)))"
  unfolding moving_forward_state Let_def emergency_stop_blocks
  by (simp add: initial_controller_def start_movement_def stop_all_safe_def end_movement_def
      duties_stop_all move_forward_def set_four_def duties_set_motor_speed duties_initial_motors)

subsection \<open>The watchdog\<close>

lemma watchdogs_record_history [simp]: "watchdogs (record_history now c) = watchdogs c"
  by (simp add: watchdogs_def)

lemma watchdogs_end_movement: "watchdogs (state_of (end_movement now c)) = watchdogs c"
  by (simp add: end_movement_def watchdogs_def)

lemma watchdogs_stop_all_safe: "watchdogs (state_of (stop_all_safe now c)) = watchdogs c"
  by (simp add: stop_all_safe_def end_movement_def watchdogs_def)

text \<open>
  Claim C1, amended. An admitted movement sets \<^verbatim>\<open>is_moving\<close> and starts exactly one
  watchdog thread; a rejected one changes nothing. Nothing cancels a watchdog:
  \<^verbatim>\<open>_end_movement\<close> and \<^verbatim>\<open>stop_all_safe\<close> leave the live watchdogs as they are. When the
  sleep of a watchdog ends it calls \<^verbatim>\<open>stop_all_safe\<close> if \<^verbatim>\<open>is_moving\<close> is true at that
  moment and does nothing otherwise.
\<close>

theorem watchdog_never_cancelled:
  "(\<not> safety_lock c \<and> \<not> emergency_stop_active c \<longrightarrow>
      returns (start_movement now a c) \<and>
      is_moving (state_of (start_movement now a c)) \<and>
      watchdogs (state_of (start_movement now a c)) =
        watchdogs c @ [(now + of_int (movement_timeout c), Movement_timeout_check)]) \<and>
   (\<not> safety_lock c \<and> emergency_stop_active c \<longrightarrow> start_movement now a c = Returned False c) \<and>
   watchdogs (state_of (end_movement now c)) = watchdogs c \<and>
   watchdogs (state_of (stop_all_safe now c)) = watchdogs c \<and>
   resume t Movement_timeout_check c = (if is_moving c then stop_all_safe t c else Returned () c)"
proof -
  have "watchdogs (c\<lparr>is_moving := True, current_action := a, movement_start_time := Some now,
           total_movements := total_movements c + 1,
           threads := threads c @ [(now + of_int (movement_timeout c), Movement_timeout_check)]\<rparr>) =
        watchdogs c @ [(now + of_int (movement_timeout c), Movement_timeout_check)]"
    by (simp add: watchdogs_def)
  then show ?thesis
    by (simp add: watchdogs_end_movement watchdogs_stop_all_safe movement_timeout_check_def
        start_movement_def)
qed

theorem watchdog_never_cancelled_witness:
  "\<not> safety_lock initial_controller \<and> \<not> emergency_stop_active initial_controller \<and>
   returns (start_movement 0 ''moving forward'' initial_controller) \<and>
   is_moving (state_of (start_movement 0 ''moving forward'' initial_controller)) \<and>
   watchdogs (state_of (start_movement 0 ''moving forward'' initial_controller)) =
     [(10, Movement_timeout_check)]"
proof -
  have h: "\<not> safety_lock initial_controller \<and> \<not> emergency_stop_active initial_controller"
    by (simp add: initial_controller_def)
  have v: "watchdogs initial_controller = []" "movement_timeout initial_controller = 10"
    by (simp_all add: watchdogs_def initial_controller_def)
  note t = watchdog_never_cancelled [of initial_controller 0 "''moving forward''",
      THEN conjunct1, THEN mp, OF h]
  show ?thesis using h t by (simp add: v)
qed

text \<open>
  Claim C1 as stated fails. A movement starts at second 1 and is stopped at second 3:
  its watchdog is still live although \<^verbatim>\<open>is_moving\<close> is false. A second movement starts at
  second 5: two watchdogs are live. When the first one wakes at second 11 it stops the
  second movement, six seconds after that one began.
\<close>

theorem watchdog_outlives_movement:
  "(let c1 = state_of (start_movement 1 ''moving forward'' initial_controller);
        c2 = state_of (stop_all_safe 3 c1);
        c3 = state_of (start_movement 5 ''turning left'' c2);
        c4 = state_of (wake 0 c3)
    in \<not> (watchdogs c2 \<noteq> [] \<longleftrightarrow> is_moving c2) \<and>
       is_moving c3 \<and> current_action c3 = ''turning left'' \<and>
       watchdogs c3 = [(11, Movement_timeout_check), (15, Movement_timeout_check)] \<and>
       \<not> is_moving c4 \<and> watchdogs c4 = [(15, Movement_timeout_check)] \<and>
       map entry_action (movement_history c4) = [''moving forward'', ''turning left''] \<and>
       map entry_duration (movement_history c4) = [2, 6])"
  by (simp add: Let_def start_movement_def stop_all_safe_def end_movement_def initial_controller_def
      watchdogs_def wake_def movement_timeout_check_def record_history_def)

section \<open>Properties of the command interpreter\<close>

subsection \<open>The utterance \<^verbatim>\<open>turn left quickly\<close>\<close>

text \<open>What the matcher computes on this utterance.\<close>

lemma tlq_text: "strip (lower ''turn left quickly'') = ''turn left quickly''"
  by code_simp

lemma tlq_no_emergency: "\<not> match_command ''turn left quickly'' ''emergency_stop''"
  by code_simp

lemma tlq_no_stop: "\<not> match_command ''turn left quickly'' ''stop''"
  by code_simp

lemma tlq_speed: "extract_speed ''turn left quickly'' = Some 65"
  by code_simp

lemma tlq_duration: "extract_duration ''turn left quickly'' = None"
  by code_simp

lemma tlq_find:
  "find (\<lambda>command_type. command_type \<notin> set [''stop'', ''emergency_stop'']
                          \<and> match_command ''turn left quickly'' command_type)
     (map fst command_patterns) = Some ''turn_left''"
  by code_simp

lemma tlq_controller:
  "voice_turn_left now (Some 65) None initial_controller =
     Returned (''Turning left'' @ '' at '' @ str_int 65 @ ''% speed'')
       (initial_controller\<lparr>is_moving := True, current_action := ''turning left'',
          movement_start_time := Some now, total_movements := 1,
          threads := [(now + 10, Movement_timeout_check)],
          current_speed := 65,
          motors := turn_left 65 initial_motors\<rparr>)"
  by (simp add: voice_turn_left_def voice_move_def start_movement_def set_speed_limit_def
      py_or_def truthy_def initial_controller_def)

lemma tlq_call:
  "call_method ''turn_left'' now (Some 65) None initial_controller =
     answered (voice_turn_left now (Some 65) None initial_controller)"
  by (simp add: call_method_def)

lemma tlq_find':
  "find (\<lambda>command_type. command_type \<noteq> ''stop'' \<and> command_type \<noteq> ''emergency_stop''
                          \<and> match_command ''turn left quickly'' command_type)
     (map fst command_patterns) = Some ''turn_left''"
  using tlq_find by simp

lemma tlq_process:
  "process_voice_command now rnd ''turn left quickly'' (p, initial_controller) =
     execute_movement_command now rnd ''turn_left'' (Some 65) None
       (record_command now ''turn left quickly'' p, initial_controller)"
  unfolding process_voice_command_def tlq_text
  by (simp add: Let_def tlq_no_emergency tlq_no_stop tlq_speed tlq_duration tlq_find')

text \<open>
  Claim C7. On a fresh controller, processing the utterance \<^verbatim>\<open>turn left quickly\<close> returns a
  successful result of command type \<^verbatim>\<open>turn_left\<close> with the fast speed 65 and no duration,
  and leaves the wheels at \<open>FL = -65\<close>, \<open>FR = 65\<close>, \<open>BL = -65\<close>, \<open>BR = 65\<close>: the left
  wheels have reverse duty 65, the right wheels forward duty 65.
\<close>

theorem turn_left_quickly_drives_wheels:
  "(let r = process_voice_command now rnd ''turn left quickly'' (p, initial_controller);
        c = snd (state_of r)
    in returns r \<and>
       map_option res_success (result_of r) = Some True \<and>
       map_option res_command_type (result_of r) = Some (Some ''turn_left'') \<and>
       map_option res_speed (result_of r) = Some (Some 65) \<and>
       map_option res_duration (result_of r) = Some None \<and>
       is_moving c \<and> current_action c = ''turning left'' \<and> current_speed c = 65 \<and>
       wheel (motors c) ''FL'' = Some (- 65) \<and> wheel (motors c) ''FR'' = Some 65 \<and>
       wheel (motors c) ''BL'' = Some (- 65) \<and> wheel (motors c) ''BR'' = Some 65 \<and>
       duties (motors c) ''FL'' = Some (0, 65) \<and> duties (motors c) ''FR'' = Some (65, 0) \<and>
       duties (motors c) ''BL'' = Some (0, 65) \<and> duties (motors c) ''BR'' = Some (65, 0))"
  unfolding tlq_process execute_movement_command_def
  by (simp add: command_map_def tlq_call tlq_controller turn_left_def set_four_def
      wheel_set_motor_speed wheel_initial_motors duties_set_motor_speed duties_initial_motors)

subsection \<open>Priority of the stop commands\<close>

text \<open>What the matcher computes on two utterances that mix a stop with a direction.\<close>

lemma mfes_text: "strip (lower ''Move forward, EMERGENCY stop'') = ''move forward, emergency stop''"
  by code_simp

lemma mfes_emergency: "match_command ''move forward, emergency stop'' ''emergency_stop''"
  by code_simp

lemma mfes_forward: "match_command ''move forward, emergency stop'' ''move_forward''"
  by code_simp

lemma smf_text: "strip (lower ''stop moving forward'') = ''stop moving forward''"
  by code_simp

lemma smf_no_emergency: "\<not> match_command ''stop moving forward'' ''emergency_stop''"
  by code_simp

lemma smf_stop: "match_command ''stop moving forward'' ''stop''"
  by code_simp

lemma smf_forward: "match_command ''stop moving forward'' ''move_forward''"
  by code_simp

text \<open>
  Claim C6. For every utterance that is not empty, with \<open>text\<close> its normalised form: if
  \<open>text\<close> matches an emergency pattern, the command is the emergency stop, whatever else
  it matches: the controller ends in the state \<^verbatim>\<open>emergency_stop\<close> leaves, and a returned
  result has the type \<^verbatim>\<open>emergency_stop\<close>. Otherwise, if it matches a stop pattern, the
  command is the stop, in the same sense. Only otherwise are the other command types
  tried, in table order.
\<close>

theorem emergency_before_stop_before_direction:
  assumes "voice_text \<noteq> []"
  shows "let text = strip (lower voice_text);
             p1 = record_command now text p;
             r = process_voice_command now rnd voice_text (p, c)
         in (match_command text ''emergency_stop'' \<longrightarrow>
               snd (state_of r) = state_of (emergency_stop now c) \<and>
               map_option res_command_type (result_of r) =
                 map_option (\<lambda>response. Some ''emergency_stop'') (result_of (emergency_stop now c))) \<and>
            (\<not> match_command text ''emergency_stop'' \<and> match_command text ''stop'' \<longrightarrow>
               snd (state_of r) = state_of (stop_all_safe now c) \<and>
               map_option res_command_type (result_of r) =
                 map_option (\<lambda>u. Some ''stop'') (result_of (stop_all_safe now c))) \<and>
            (\<not> match_command text ''emergency_stop'' \<and> \<not> match_command text ''stop'' \<longrightarrow>
               r = (case find (\<lambda>command_type. command_type \<notin> set [''stop'', ''emergency_stop'']
                                               \<and> match_command text command_type)
                          (map fst command_patterns) of
                      Some command_type \<Rightarrow>
                        execute_movement_command now rnd command_type
                          (extract_speed text) (extract_duration text) (p1, c)
                    | None \<Rightarrow>
                        Returned (failure ''I didn't understand that movement command'') (p1, c)))"
  using assms
  by (auto simp: process_voice_command_def Let_def split: outcome.splits)

theorem emergency_before_stop_before_direction_witness:
  "''Move forward, EMERGENCY stop'' \<noteq> [] \<and>
   match_command (strip (lower ''Move forward, EMERGENCY stop'')) ''emergency_stop'' \<and>
   match_command (strip (lower ''Move forward, EMERGENCY stop'')) ''move_forward'' \<and>
   snd (state_of (process_voice_command 0 0 ''Move forward, EMERGENCY stop''
                    (initial_processor, initial_controller))) =
     state_of (emergency_stop 0 initial_controller) \<and>
   ''stop moving forward'' \<noteq> [] \<and>
   \<not> match_command (strip (lower ''stop moving forward'')) ''emergency_stop'' \<and>
   match_command (strip (lower ''stop moving forward'')) ''stop'' \<and>
   match_command (strip (lower ''stop moving forward'')) ''move_forward'' \<and>
   map_option res_command_type
     (result_of (process_voice_command 0 0 ''stop moving forward''
                   (initial_processor, initial_controller))) = Some (Some ''stop'') \<and>
   total_movements (snd (state_of (process_voice_command 0 0 ''stop moving forward''
                   (initial_processor, initial_controller)))) = 0"
proof -
  have h1: "''Move forward, EMERGENCY stop'' \<noteq> []" and h2: "''stop moving forward'' \<noteq> []"
    by simp_all
  note t1 = emergency_before_stop_before_direction [OF h1, of 0 initial_processor 0 initial_controller,
      unfolded Let_def mfes_text, THEN conjunct1, THEN mp, OF mfes_emergency]
  have s: "stop_all_safe 0 initial_controller = Returned () initial_controller"
    by (simp add: stop_all_safe_def end_movement_def initial_controller_def stop_all_def
        set_motor_speed_def initial_motors_def)
  have "\<not> match_command ''stop moving forward'' ''emergency_stop'' \<and>
        match_command ''stop moving forward'' ''stop''"
    using smf_no_emergency smf_stop by simp
  note t2 = emergency_before_stop_before_direction [OF h2, of 0 initial_processor 0 initial_controller,
      unfolded Let_def smf_text, THEN conjunct2, THEN conjunct1, THEN mp, OF this]
  have i: "total_movements initial_controller = 0"
    by (simp add: initial_controller_def)
  show ?thesis
    unfolding mfes_text smf_text
    using t1 t2 mfes_emergency mfes_forward smf_no_emergency smf_stop smf_forward
    by (simp add: s i)
qed

section \<open>Properties of the state machine\<close>

text \<open>What the interpreter does with the utterance \<^verbatim>\<open>stop\<close> on a fresh controller.\<close>

lemma stop_text: "strip (lower ''stop'') = ''stop''"
  by code_simp

lemma stop_no_emergency: "\<not> match_command ''stop'' ''emergency_stop''"
  by code_simp

lemma stop_stop: "match_command ''stop'' ''stop''"
  by code_simp

lemma stop_is_movement_command: "is_movement_command ''stop''"
  by code_simp

lemma stop_process:
  "process_voice_command now rnd ''stop'' (initial_processor, initial_controller) =
     Returned
       \<lparr>res_success = True, res_response = ''Stopping all movement'',
        res_command_type = Some ''stop'', res_speed = None, res_duration = None\<rparr>
       (record_success now ''stop'' (record_command now ''stop'' initial_processor), initial_controller)"
proof -
  have s: "stop_all_safe now initial_controller = Returned () initial_controller"
    by (simp add: stop_all_safe_def end_movement_def initial_controller_def stop_all_def
        set_motor_speed_def initial_motors_def)
  show ?thesis
    unfolding process_voice_command_def stop_text
    by (simp add: Let_def stop_no_emergency stop_stop s)
qed

lemma state_speak_moving: "state b = MOVING \<Longrightarrow> state (speak text b) = MOVING"
  by (simp add: speak_def Let_def)

lemma state_transition_to_moving: "state (transition_to_moving b) = MOVING"
  by (simp add: transition_to_moving_def)

lemma state_transition_to_listening: "state (transition_to_listening b) = LISTENING"
  by (simp add: transition_to_listening_def)

lemma state_transition_to_idle: "state (transition_to_idle b) = IDLE"
  by (simp add: transition_to_idle_def)

text \<open>
  Claim C3 as stated fails. The robot is listening, with a fresh controller, and hears
  \<^verbatim>\<open>stop\<close>. The text is a movement command, so \<^verbatim>\<open>_process_movement_command\<close> runs and the
  state becomes \<open>MOVING\<close>; yet no movement was ever admitted (\<^verbatim>\<open>total_movements\<close> is still
  0) and \<^verbatim>\<open>is_moving\<close> is false.
\<close>

theorem moving_entered_without_admission:
  "(let b = initial_brain\<lparr>state := LISTENING, person_detected := True, conversation_active := True\<rparr>;
        r = process_movement_command 1 0 ''stop'' b
    in state b = LISTENING \<and> is_movement_command ''stop'' \<and>
       returns r \<and> state (state_of r) = MOVING \<and>
       map_option (total_movements \<circ> snd) (movement (state_of r)) = Some 0 \<and>
       map_option (is_moving \<circ> snd) (movement (state_of r)) = Some False)"
  unfolding Let_def process_movement_command_def
  by (simp add: initial_brain_def transition_to_moving_def stop_process speak_def Let_def
      stop_is_movement_command)
    (simp add: initial_controller_def)

text \<open>
  Claim C3, amended. \<^verbatim>\<open>_process_movement_command\<close> enters \<open>MOVING\<close> before the command is
  processed, whether or not an admission check is made or succeeds: the state after it
  is \<open>MOVING\<close> unless processing returns a failure, in which case it is \<open>LISTENING\<close>.
  \<^verbatim>\<open>_handle_movement_state\<close> keeps the state while \<^verbatim>\<open>is_moving\<close> is true; when it is false
  it goes to \<open>LISTENING\<close> if a person is detected and to \<open>IDLE\<close> if not; without a
  movement system it goes to \<open>LISTENING\<close>.
\<close>

theorem moving_state_transitions:
  "(movement b = Some pc \<longrightarrow>
      state (state_of (process_movement_command now rnd text b)) =
        (case result_of (process_voice_command now rnd text pc) of
           None \<Rightarrow> MOVING
         | Some res \<Rightarrow> if res_success res then MOVING else LISTENING)) \<and>
   (movement b = Some (p, c) \<and> is_moving c \<longrightarrow>
      state (state_of (handle_movement_state now b)) = state b) \<and>
   (movement b = Some (p, c) \<and> \<not> is_moving c \<longrightarrow>
      state (state_of (handle_movement_state now b)) = (if person_detected b then LISTENING else IDLE)) \<and>
   (movement b = None \<longrightarrow> state (state_of (handle_movement_state now b)) = LISTENING)"
proof (intro conjI impI)
  assume m: "movement b = Some pc"
  show "state (state_of (process_movement_command now rnd text b)) =
        (case result_of (process_voice_command now rnd text pc) of
           None \<Rightarrow> MOVING
         | Some res \<Rightarrow> if res_success res then MOVING else LISTENING)"
  proof (cases "process_voice_command now rnd text pc")
    case (Returned res pc')
    have "movement (transition_to_moving b) = Some pc"
      using m by (simp add: transition_to_moving_def)
    then show ?thesis
      using Returned
      by (simp add: process_movement_command_def Let_def state_speak_moving
          state_transition_to_moving state_transition_to_listening)
  next
    case (Blocked pc')
    have "movement (transition_to_moving b) = Some pc"
      using m by (simp add: transition_to_moving_def)
    then show ?thesis
      using Blocked
      by (simp add: process_movement_command_def Let_def state_transition_to_moving)
  qed
next
  assume "movement b = Some (p, c) \<and> is_moving c"
  then show "state (state_of (handle_movement_state now b)) = state b"
    by (auto simp: handle_movement_state_def get_movement_status_def Let_def split: outcome.splits)
next
  assume "movement b = Some (p, c) \<and> \<not> is_moving c"
  then show "state (state_of (handle_movement_state now b)) = (if person_detected b then LISTENING else IDLE)"
    by (simp add: handle_movement_state_def get_movement_status_def Let_def
        state_transition_to_listening state_transition_to_idle)
next
  assume "movement b = None"
  then show "state (state_of (handle_movement_state now b)) = LISTENING"
    by (simp add: handle_movement_state_def state_transition_to_listening)
qed

theorem moving_state_transitions_witness:
  "movement (initial_brain\<lparr>state := LISTENING\<rparr>) = Some (initial_processor, initial_controller) \<and>
   state (state_of (process_movement_command 1 0 ''stop'' (initial_brain\<lparr>state := LISTENING\<rparr>))) = MOVING \<and>
   is_moving (state_of (voice_move_forward 0 None None initial_controller)) \<and>
   state (state_of (handle_movement_state 5
      (initial_brain\<lparr>state := MOVING,
         movement := Some (initial_processor,
                           state_of (voice_move_forward 0 None None initial_controller))\<rparr>))) = MOVING \<and>
   \<not> is_moving initial_controller \<and>
   state (state_of (handle_movement_state 5 (initial_brain\<lparr>state := MOVING, person_detected := True\<rparr>)))
     = LISTENING \<and>
   state (state_of (handle_movement_state 5 (initial_brain\<lparr>state := MOVING\<rparr>))) = IDLE \<and>
   state (state_of (handle_movement_state 5 (initial_brain\<lparr>state := MOVING, movement := None\<rparr>)))
     = LISTENING"
proof -
  have h1: "movement (initial_brain\<lparr>state := LISTENING\<rparr>) = Some (initial_processor, initial_controller)"
    by (simp add: initial_brain_def)
  note t1 = moving_state_transitions [of "initial_brain\<lparr>state := LISTENING\<rparr>"
      "(initial_processor, initial_controller)" 1 0 "''stop''",
      THEN conjunct1, THEN mp, OF h1]
  have m: "is_moving (state_of (voice_move_forward 0 None None initial_controller))"
    unfolding moving_forward_state by simp
  have h2: "movement (initial_brain\<lparr>state := MOVING,
         movement := Some (initial_processor,
                           state_of (voice_move_forward 0 None None initial_controller))\<rparr>) =
       Some (initial_processor, state_of (voice_move_forward 0 None None initial_controller)) \<and>
       is_moving (state_of (voice_move_forward 0 None None initial_controller))"
    using m by simp
  note t2 = moving_state_transitions [THEN conjunct2, THEN conjunct1, THEN mp, OF h2, of 5]
  have n: "\<not> is_moving initial_controller"
    by (simp add: initial_controller_def)
  have h3: "movement (initial_brain\<lparr>state := MOVING, person_detected := True\<rparr>) =
       Some (initial_processor, initial_controller) \<and> \<not> is_moving initial_controller"
    using n by (simp add: initial_brain_def)
  note t3 = moving_state_transitions [THEN conjunct2, THEN conjunct2, THEN conjunct1, THEN mp, OF h3, of 5]
  have h3': "movement (initial_brain\<lparr>state := MOVING\<rparr>) =
       Some (initial_processor, initial_controller) \<and> \<not> is_moving initial_controller"
    using n by (simp add: initial_brain_def)
  note t3' = moving_state_transitions [THEN conjunct2, THEN conjunct2, THEN conjunct1, THEN mp, OF h3', of 5]
  have h4: "movement (initial_brain\<lparr>state := MOVING, movement := None\<rparr>) = None"
    by simp
  note t4 = moving_state_transitions [THEN conjunct2, THEN conjunct2, THEN conjunct2, THEN mp, OF h4, of 5]
  have p: "person_detected initial_brain = False"
    by (simp add: initial_brain_def)
  show ?thesis
    using h1 t1 m t2 n t3 t3' t4
    by (simp add: stop_process p)
qed

end
